theory Spec2Isabelle
  imports Main "HOL-Library.Word" "HOL-Library.AList" "HOL-Library.Multiset"
begin

section \<open>The authorization server: key registry and validation\<close>

text \<open>
  Go's \<^verbatim>\<open>int\<close> is a 64-bit two's complement integer on the targets the server is built
  for: addition wraps, comparison is signed (\<open><s\<close>, \<open>\<le>s\<close>, read back with \<open>sint\<close>).
  A \<^verbatim>\<open>time.Time\<close> is an instant on the clock's line; only its order is used
  (\<^verbatim>\<open>After\<close>, \<^verbatim>\<open>Before\<close>), so an instant is an integer count of clock ticks and every
  call of \<^verbatim>\<open>time.Now()\<close> is an input of the model.
\<close>

type_synonym go_int = "64 word"

type_synonym time = int

record KeyInfo =
  Valid :: bool
  CreatedAt :: time
  ExpiresAt :: time
  UsageCount :: go_int
  MaxUsage :: go_int

text \<open>
  \<^verbatim>\<open>keyDatabase\<close> is a \<^verbatim>\<open>map[string]*KeyInfo\<close>. Every value is a pointer to a record
  allocated at its insertion and stored nowhere else, so no two keys share a record and
  the update through the pointer in \<^verbatim>\<open>validateKey\<close> is an update of that key's entry.
  The registry is kept as an association list: \<open>map_of\<close> is the lookup,
  \<open>AList.update\<close> the store (it replaces the entry of a key that is present), and the
  list is the sequence of entries a \<^verbatim>\<open>range\<close> loop visits. The mutex
  \<^verbatim>\<open>dbMutex\<close> is held over the whole body of each operation, which the model reads as:
  an operation is one step from a registry to a registry.
\<close>

type_synonym keyDatabase = "(string \<times> KeyInfo) list"

text \<open>
  \<^verbatim>\<open>validateKey\<close>: the registry after the call and the returned status (1 accept,
  -1 reject). \<open>now\<close> is the reading of \<^verbatim>\<open>time.Now()\<close> in the expiry check. The log
  lines of the source are not part of the model.
\<close>

definition validateKey :: "keyDatabase \<Rightarrow> string \<Rightarrow> time \<Rightarrow> keyDatabase \<times> go_int" where
  "validateKey db key now =
     (case map_of db key of
        None \<Rightarrow> (db, - 1)
      | Some keyInfo \<Rightarrow>
          if \<not> Valid keyInfo then (db, - 1)
          else if now > ExpiresAt keyInfo then (db, - 1)
          else if MaxUsage keyInfo \<le>s UsageCount keyInfo then (db, - 1)
          else (AList.update key (keyInfo\<lparr>UsageCount := UsageCount keyInfo + 1\<rparr>) db, 1))"

text \<open>
  A sequence of validation calls on one key, one clock reading per call: the registry
  after the last call and the statuses in call order.
\<close>

fun validateKeyTimes :: "keyDatabase \<Rightarrow> string \<Rightarrow> time list \<Rightarrow> keyDatabase \<times> go_int list" where
  "validateKeyTimes db key [] = (db, [])"
| "validateKeyTimes db key (now # nows) =
     (case validateKey db key now of
        (db', status) \<Rightarrow>
          (case validateKeyTimes db' key nows of
             (db'', statuses) \<Rightarrow> (db'', status # statuses)))"

text \<open>
  A sequence of validation calls on any keys at any clock readings: the registry after
  the last call.
\<close>

fun validateCalls :: "keyDatabase \<Rightarrow> (string \<times> time) list \<Rightarrow> keyDatabase" where
  "validateCalls db [] = db"
| "validateCalls db ((key, now) # calls) = validateCalls (fst (validateKey db key now)) calls"

text \<open>
  Instants are counted in nanoseconds, the unit of \<^verbatim>\<open>time.Duration\<close>:
  \<^verbatim>\<open>time.Hour\<close> is \<open>3600000000000\<close>.
\<close>

definition Hour :: time where
  "Hour = 3600000000000"

text \<open>
  \<^verbatim>\<open>initTestKeys\<close>: \<open>testKey\<close> and \<open>invalidKey\<close> are the two results of
  \<^verbatim>\<open>generateRandomKey\<close>, \<open>t1\<close> to \<open>t4\<close> the four clock readings in source order.
\<close>

definition initTestKeys ::
    "keyDatabase \<Rightarrow> string \<Rightarrow> string \<Rightarrow> time \<Rightarrow> time \<Rightarrow> time \<Rightarrow> time \<Rightarrow> keyDatabase" where
  "initTestKeys db testKey invalidKey t1 t2 t3 t4 =
     AList.update invalidKey
       \<lparr>Valid = False, CreatedAt = t3, ExpiresAt = t4 + (- 24) * Hour,
        UsageCount = 0, MaxUsage = 100\<rparr>
       (AList.update testKey
          \<lparr>Valid = True, CreatedAt = t1, ExpiresAt = t2 + 365 * 24 * Hour,
           UsageCount = 0, MaxUsage = 1000\<rparr> db)"

text \<open>
  \<^verbatim>\<open>addKeyHandler\<close>: \<open>newKey\<close> is what \<^verbatim>\<open>generateRandomKey\<close> returned, \<open>t1\<close> and
  \<open>t2\<close> the two clock readings that fill the record. A method other than POST is
  answered with status 405 and leaves the registry as it is.
\<close>

definition addKeyHandler :: "keyDatabase \<Rightarrow> string \<Rightarrow> string \<Rightarrow> time \<Rightarrow> time \<Rightarrow> keyDatabase" where
  "addKeyHandler db method newKey t1 t2 =
     (if method \<noteq> ''POST'' then db
      else AList.update newKey
             \<lparr>Valid = True, CreatedAt = t1, ExpiresAt = t2 + 365 * 24 * Hour,
              UsageCount = 0, MaxUsage = 1000\<rparr> db)"

text \<open>
  \<^verbatim>\<open>statsHandler\<close>: the \<^verbatim>\<open>range\<close> loop over the registry, with the two counters it
  carries. \<open>clock i\<close> is the instant at which the loop is at its \<open>i\<close>-th record,
  where the source reads the clock if the record is enabled, and \<open>clock (length db)\<close>
  the instant after the loop, read for \<^verbatim>\<open>server_time\<close>.
\<close>

record statsResponse =
  total_keys :: go_int
  valid_keys :: go_int
  total_usage :: go_int
  server_time :: time

fun statsLoop :: "keyDatabase \<Rightarrow> (nat \<Rightarrow> time) \<Rightarrow> nat \<Rightarrow> go_int \<Rightarrow> go_int \<Rightarrow> go_int \<times> go_int" where
  "statsLoop [] clock i validKeys totalUsage = (validKeys, totalUsage)"
| "statsLoop ((key, keyInfo) # rest) clock i validKeys totalUsage =
     statsLoop rest clock (Suc i)
       (if Valid keyInfo \<and> clock i < ExpiresAt keyInfo then validKeys + 1 else validKeys)
       (totalUsage + UsageCount keyInfo)"

definition statsHandler :: "keyDatabase \<Rightarrow> (nat \<Rightarrow> time) \<Rightarrow> statsResponse" where
  "statsHandler db clock =
     (case statsLoop db clock 0 0 0 of
        (validKeys, totalUsage) \<Rightarrow>
          \<lparr>total_keys = of_nat (length db), valid_keys = validKeys,
           total_usage = totalUsage, server_time = clock (length db)\<rparr>)"

text \<open>
  The life of the registry: \<^verbatim>\<open>main\<close> of the server calls \<^verbatim>\<open>initTestKeys\<close> on the empty
  map, and from then on the handlers change it, one call at a time under the mutex:
  \<^verbatim>\<open>validateKey\<close> (from \<^verbatim>\<open>authorizeHandler\<close>) and \<^verbatim>\<open>addKeyHandler\<close>.
  \<open>withinCeiling\<close> is the property of a registry that every count is between 0 and
  its ceiling and no ceiling is above 1000.
\<close>

datatype call = ValidateKeyCall string time | AddKeyCall string string time time

fun serverStep :: "keyDatabase \<Rightarrow> call \<Rightarrow> keyDatabase" where
  "serverStep db (ValidateKeyCall key now) = fst (validateKey db key now)"
| "serverStep db (AddKeyCall method newKey t1 t2) = addKeyHandler db method newKey t1 t2"

definition withinCeiling :: "keyDatabase \<Rightarrow> bool" where
  "withinCeiling db =
     list_all (\<lambda>(key, keyInfo). 0 \<le>s UsageCount keyInfo
       \<and> UsageCount keyInfo \<le>s MaxUsage keyInfo \<and> MaxUsage keyInfo \<le>s 1000) db"

section \<open>The client: paths\<close>

text \<open>
  \<^verbatim>\<open>filepath.Clean\<close>, \<^verbatim>\<open>filepath.Join\<close> and \<^verbatim>\<open>filepath.Dir\<close> of Go's standard
  library, for the separator \<^verbatim>\<open>/\<close>, written on the elements of a path: an empty
  element and \<^verbatim>\<open>.\<close> are dropped, \<^verbatim>\<open>..\<close> removes the element before it when there
  is one that is not itself \<^verbatim>\<open>..\<close>, is dropped at the root and is kept at the front of
  a relative path. \<open>out\<close> is the cleaned path so far, last element first.
\<close>

fun splitSep :: "string \<Rightarrow> string list" where
  "splitSep [] = [[]]"
| "splitSep (c # cs) =
     (if c = CHR ''/'' then [] # splitSep cs
      else (case splitSep cs of [] \<Rightarrow> [[c]] | e # es \<Rightarrow> (c # e) # es))"

fun joinSep :: "string list \<Rightarrow> string" where
  "joinSep [] = []"
| "joinSep [e] = e"
| "joinSep (e # es) = e @ ''/'' @ joinSep es"

fun cleanElems :: "bool \<Rightarrow> string list \<Rightarrow> string list \<Rightarrow> string list" where
  "cleanElems rooted [] out = rev out"
| "cleanElems rooted (e # es) out =
     (if e = [] \<or> e = ''.'' then cleanElems rooted es out
      else if e = ''..'' then
        (case out of
           [] \<Rightarrow> if rooted then cleanElems rooted es [] else cleanElems rooted es [''..'']
         | prev # below \<Rightarrow>
             if prev = ''..'' then cleanElems rooted es (''..'' # out)
             else cleanElems rooted es below)
      else cleanElems rooted es (e # out))"

definition isRooted :: "string \<Rightarrow> bool" where
  "isRooted path = (case path of [] \<Rightarrow> False | c # cs \<Rightarrow> c = CHR ''/'')"

definition filepath_Clean :: "string \<Rightarrow> string" where
  "filepath_Clean path =
     (if path = [] then ''.''
      else if isRooted path then ''/'' @ joinSep (cleanElems True (splitSep path) [])
      else if cleanElems False (splitSep path) [] = [] then ''.''
      else joinSep (cleanElems False (splitSep path) []))"

definition filepath_Join :: "string list \<Rightarrow> string" where
  "filepath_Join elem =
     (if filter (\<lambda>e. e \<noteq> []) elem = [] then []
      else filepath_Clean (joinSep (filter (\<lambda>e. e \<noteq> []) elem)))"

definition filepath_Dir :: "string \<Rightarrow> string" where
  "filepath_Dir path = filepath_Clean (rev (dropWhile (\<lambda>c. c \<noteq> CHR ''/'') (rev path)))"

text \<open>
  What it means for a path to lie in the tree below a directory, read off the cleaned
  paths: both rooted or both relative, the directory's elements a prefix of the
  path's, and no \<^verbatim>\<open>..\<close> after that prefix.
\<close>

definition pathElems :: "string \<Rightarrow> string list" where
  "pathElems path = cleanElems (isRooted path) (splitSep path) []"

definition withinDir :: "string \<Rightarrow> string \<Rightarrow> bool" where
  "withinDir dir path =
     (isRooted dir = isRooted path
      \<and> take (length (pathElems dir)) (pathElems path) = pathElems dir
      \<and> ''..'' \<notin> set (drop (length (pathElems dir)) (pathElems path)))"

section \<open>The client: errors, messages and observable events\<close>

text \<open>
  One constructor per error the client builds; the text of an underlying library error
  (\<^verbatim>\<open>%v\<close>) is not kept. In source order: directory creation failed; key file creation
  failed; "the key file is empty, configure the authorization key first"; the key file
  cannot be read; "authorization check failed:" around a key file error; the request
  cannot be serialised; the network request failed; "the connection is not HTTPS";
  "the server certificate's domain check failed"; the response cannot be read; the
  response cannot be parsed; "authorization failed: buy a genuine key at
  https://xzip.com"; "abnormal authorization status" with the status; and the errors of
  the archive routines.
\<close>

datatype error =
    MkdirFailed
  | CreateKeyFileFailed
  | KeyFileEmpty
  | ReadKeyFileFailed
  | AuthValidationFailed error
  | MarshalFailed
  | NetworkFailed
  | NotHTTPS
  | CertDomainMismatch
  | ReadResponseFailed
  | ParseResponseFailed
  | AuthRejected
  | StatusAbnormal go_int
  | PasswordReadFailed
  | CompressError
  | OpenReaderFailed
  | NeedsPassword string
  | OpenEntryFailed string
  | EntryOpenError
  | OpenFileFailed
  | CopyFailed

text \<open>
  The lines the client prints. \<open>WriteKeyIntoFile\<close> is "write your authorization key
  into this file"; \<open>InitFailed\<close> is "initialisation failed:" with the error;
  \<open>Failed\<close> prints the error of the authorization step.
\<close>

datatype message =
    Title
  | TitlePlain
  | Rule
  | KeyFileCreated string
  | WriteKeyIntoFile
  | InitFailed error
  | Failed error
  | AuthOK
  | UsageHeader
  | UsageCompress
  | UsageExtract
  | CompressArgsMissing
  | ExtractArgsMissing
  | AskNeedPassword
  | AskHasPassword
  | PasswordPrompt
  | Newline
  | PasswordInputFailed
  | CompressFailed error
  | CompressDone string
  | Extracting string string
  | ExtractFailed error
  | ExtractDone string
  | UnknownCommand string
  | SupportedCommands

text \<open>
  What a run does to the world, in order: a line printed, a call of \<^verbatim>\<open>os.MkdirAll\<close>,
  \<^verbatim>\<open>os.Create\<close> of the key file, the POST of a body to a URL, a call of
  \<^verbatim>\<open>compressToZip\<close> (source, target, password), \<^verbatim>\<open>zip.OpenReader\<close> of an archive,
  \<^verbatim>\<open>os.OpenFile\<close> of a path for writing with create and truncate, and the bytes copied
  into the file at a path. Modes are numbers (\<open>0755 = 493\<close>, \<open>0700 = 448\<close>).
\<close>

datatype event =
    Print message
  | MkdirAll string nat
  | Create string
  | HttpPost string string
  | CompressToZip string string string
  | OpenReaderCall string
  | OpenFile string nat
  | Write string string

section \<open>The client: extraction\<close>

text \<open>
  An entry of an opened archive (\<^verbatim>\<open>zip.File\<close>): its name, what \<^verbatim>\<open>FileInfo()\<close> says
  (directory, mode), whether it is encrypted, and what opening it gives: \<open>None\<close> for an
  error, the bytes of the entry otherwise.
\<close>

record zipFile =
  Name :: string
  IsDir :: bool
  Mode :: nat
  IsEncrypted :: bool
  Open :: "string option"
  OpenWithPassword :: "string \<Rightarrow> string option"

text \<open>
  The results of the system calls of an extraction: the archive \<^verbatim>\<open>zip.OpenReader\<close>
  finds at a path, whether \<^verbatim>\<open>os.OpenFile\<close> succeeds on a path and whether
  \<^verbatim>\<open>io.Copy\<close> into it does. The source ignores the result of \<^verbatim>\<open>os.MkdirAll\<close>.
  A copy that fails may have written a part of the entry; only a complete copy is
  recorded as a write.
\<close>

record files =
  OpenReader :: "string \<Rightarrow> zipFile list option"
  OpenFileOk :: "string \<Rightarrow> bool"
  CopyOk :: "string \<Rightarrow> bool"

text \<open>
  The loop of \<^verbatim>\<open>extractFromZip\<close> in the client with passwords: the error it returns,
  if any, and the events up to there.
\<close>

fun extractLoop :: "files \<Rightarrow> string \<Rightarrow> string \<Rightarrow> zipFile list \<Rightarrow> error option \<times> event list" where
  "extractLoop fs target password [] = (None, [])"
| "extractLoop fs target password (file # rest) =
     (let path = filepath_Join [target, Name file] in
      if IsDir file then
        (case extractLoop fs target password rest of
           (err, evs) \<Rightarrow> (err, MkdirAll path (Mode file) # evs))
      else if IsEncrypted file \<and> password = [] then (Some (NeedsPassword (Name file)), [])
      else
        (case (if IsEncrypted file then OpenWithPassword file password else Open file) of
           None \<Rightarrow> (Some (OpenEntryFailed (Name file)), [])
         | Some bytes \<Rightarrow>
             if \<not> OpenFileOk fs path then
               (Some OpenFileFailed, [MkdirAll (filepath_Dir path) 493, OpenFile path (Mode file)])
             else if \<not> CopyOk fs path then
               (Some CopyFailed, [MkdirAll (filepath_Dir path) 493, OpenFile path (Mode file)])
             else
               (case extractLoop fs target password rest of
                  (err, evs) \<Rightarrow>
                    (err, MkdirAll (filepath_Dir path) 493 # OpenFile path (Mode file)
                            # Write path bytes # evs))))"

definition extractFromZip :: "files \<Rightarrow> string \<Rightarrow> string \<Rightarrow> string \<Rightarrow> error option \<times> event list" where
  "extractFromZip fs source target password =
     (case OpenReader fs source of
        None \<Rightarrow> (Some OpenReaderFailed, [Print (Extracting source target), OpenReaderCall source])
      | Some entries \<Rightarrow>
          (case extractLoop fs target password entries of
             (err, evs) \<Rightarrow>
               (err, Print (Extracting source target) # OpenReaderCall source
                       # MkdirAll target 493 # evs)))"

text \<open>The same routine in the client without passwords: every entry is opened plainly.\<close>

fun extractLoopPlain :: "files \<Rightarrow> string \<Rightarrow> zipFile list \<Rightarrow> error option \<times> event list" where
  "extractLoopPlain fs target [] = (None, [])"
| "extractLoopPlain fs target (file # rest) =
     (let path = filepath_Join [target, Name file] in
      if IsDir file then
        (case extractLoopPlain fs target rest of
           (err, evs) \<Rightarrow> (err, MkdirAll path (Mode file) # evs))
      else
        (case Open file of
           None \<Rightarrow> (Some EntryOpenError, [])
         | Some bytes \<Rightarrow>
             if \<not> OpenFileOk fs path then
               (Some OpenFileFailed, [MkdirAll (filepath_Dir path) 493, OpenFile path (Mode file)])
             else if \<not> CopyOk fs path then
               (Some CopyFailed, [MkdirAll (filepath_Dir path) 493, OpenFile path (Mode file)])
             else
               (case extractLoopPlain fs target rest of
                  (err, evs) \<Rightarrow>
                    (err, MkdirAll (filepath_Dir path) 493 # OpenFile path (Mode file)
                            # Write path bytes # evs))))"

definition extractFromZipPlain :: "files \<Rightarrow> string \<Rightarrow> string \<Rightarrow> error option \<times> event list" where
  "extractFromZipPlain fs source target =
     (case OpenReader fs source of
        None \<Rightarrow> (Some OpenReaderFailed, [Print (Extracting source target), OpenReaderCall source])
      | Some entries \<Rightarrow>
          (case extractLoopPlain fs target entries of
             (err, evs) \<Rightarrow>
               (err, Print (Extracting source target) # OpenReaderCall source
                       # MkdirAll target 493 # evs)))"

section \<open>The client: authorization gate and commands\<close>

text \<open>
  A peer certificate as far as the client reads it, and a response: \<open>TLS\<close> is
  \<open>None\<close> for \<^verbatim>\<open>resp.TLS == nil\<close> and the peer certificates of the connection
  otherwise, \<open>Body\<close> is what \<^verbatim>\<open>ioutil.ReadAll(resp.Body)\<close> gives (\<open>None\<close> for an
  error).
\<close>

record Certificate =
  DNSNames :: "string list"
  CommonName :: string

record Response =
  TLS :: "Certificate list option"
  Body :: "string option"

datatype statResult = Exists | NotExist | StatError

text \<open>
  Everything a run of the client reads from outside, each library call an input: the
  home directory; whether \<^verbatim>\<open>os.MkdirAll\<close> of the key directory succeeds; what
  \<^verbatim>\<open>os.Stat\<close> says of the key file; whether \<^verbatim>\<open>os.Create\<close> of it succeeds; what
  \<^verbatim>\<open>ioutil.ReadFile\<close> of it gives; \<^verbatim>\<open>json.Marshal\<close> of a request with a given key;
  the answer of \<^verbatim>\<open>client.Post\<close> to a URL and body (\<open>None\<close> for an error), over a
  transport with \<^verbatim>\<open>InsecureSkipVerify\<close>, so that no answer is excluded by its
  certificates; \<^verbatim>\<open>json.Unmarshal\<close> of a body into the status field; the arguments of
  the process; the line read from the terminal; what \<^verbatim>\<open>term.ReadPassword\<close> gives;
  the result of \<^verbatim>\<open>compressToZip\<close>, whose walk over the source tree is not modelled;
  and the system calls of an extraction.
\<close>

record world =
  Home :: string
  MkdirAllOk :: bool
  KeyFileStat :: statResult
  CreateOk :: bool
  ReadKeyFile :: "string option"
  Marshal :: "string \<Rightarrow> string option"
  Post :: "string \<Rightarrow> string \<Rightarrow> Response option"
  Unmarshal :: "string \<Rightarrow> go_int option"
  Args :: "string list"
  StdinLine :: string
  ReadPassword :: "string option"
  CompressResult :: "string \<Rightarrow> string \<Rightarrow> string \<Rightarrow> error option"
  Files :: files

definition AuthURL :: string where
  "AuthURL = ''https://xzip.com/authorize''"

definition KeyFile :: string where
  "KeyFile = ''.xzip/key''"

text \<open>
  \<^verbatim>\<open>strings.TrimSpace\<close> removes the leading and the trailing white space of a string,
  white space being the code points of \<^verbatim>\<open>unicode.IsSpace\<close>, read from the bytes as
  UTF-8. In one byte: tab, line feed, vertical tab, form feed, carriage return, space.
  In two bytes: U+0085 (\<^verbatim>\<open>C2 85\<close>) and U+00A0 (\<^verbatim>\<open>C2 A0\<close>). In three bytes: U+1680
  (\<^verbatim>\<open>E1 9A 80\<close>), U+2000 to U+200A (\<^verbatim>\<open>E2 80 80\<close> to \<^verbatim>\<open>E2 80 8A\<close>), U+2028, U+2029
  and U+202F (\<^verbatim>\<open>E2 80 A8\<close>, \<^verbatim>\<open>E2 80 A9\<close>, \<^verbatim>\<open>E2 80 AF\<close>), U+205F (\<^verbatim>\<open>E2 81 9F\<close>) and
  U+3000 (\<^verbatim>\<open>E3 80 80\<close>). A byte that starts no valid encoding is read as U+FFFD,
  which is no white space, so a string is trimmed exactly as long as it starts (or
  ends) with one of these byte sequences. \<open>trimRightRev\<close> works on the reversed
  string, where the bytes of a code point come last byte first.
\<close>

definition asciiSpace :: "char \<Rightarrow> bool" where
  "asciiSpace c = (c = CHR 0x09 \<or> c = CHR 0x0A \<or> c = CHR 0x0B \<or> c = CHR 0x0C \<or> c = CHR 0x0D
     \<or> c = CHR 0x20)"

definition space2 :: "char \<Rightarrow> char \<Rightarrow> bool" where
  "space2 a b = (a = CHR 0xC2 \<and> (b = CHR 0x85 \<or> b = CHR 0xA0))"

definition space3 :: "char \<Rightarrow> char \<Rightarrow> char \<Rightarrow> bool" where
  "space3 a b c =
     ((a = CHR 0xE1 \<and> b = CHR 0x9A \<and> c = CHR 0x80)
      \<or> (a = CHR 0xE2 \<and> b = CHR 0x80
          \<and> ((0x80 \<le> (of_char c :: nat) \<and> (of_char c :: nat) \<le> 0x8A)
              \<or> c = CHR 0xA8 \<or> c = CHR 0xA9 \<or> c = CHR 0xAF))
      \<or> (a = CHR 0xE2 \<and> b = CHR 0x81 \<and> c = CHR 0x9F)
      \<or> (a = CHR 0xE3 \<and> b = CHR 0x80 \<and> c = CHR 0x80))"

fun trimLeft :: "string \<Rightarrow> string" where
  "trimLeft (a # b # c # rest) =
     (if asciiSpace a then trimLeft (b # c # rest)
      else if space2 a b then trimLeft (c # rest)
      else if space3 a b c then trimLeft rest
      else a # b # c # rest)"
| "trimLeft [a, b] =
     (if asciiSpace a then trimLeft [b]
      else if space2 a b then []
      else [a, b])"
| "trimLeft [a] = (if asciiSpace a then [] else [a])"
| "trimLeft [] = []"

fun trimRightRev :: "string \<Rightarrow> string" where
  "trimRightRev (c # b # a # rest) =
     (if asciiSpace c then trimRightRev (b # a # rest)
      else if space2 b c then trimRightRev (a # rest)
      else if space3 a b c then trimRightRev rest
      else c # b # a # rest)"
| "trimRightRev [b, a] =
     (if asciiSpace b then trimRightRev [a]
      else if space2 a b then []
      else [b, a])"
| "trimRightRev [a] = (if asciiSpace a then [] else [a])"
| "trimRightRev [] = []"

definition TrimSpace :: "string \<Rightarrow> string" where
  "TrimSpace s = rev (trimRightRev (rev (trimLeft s)))"

text \<open>
  \<^verbatim>\<open>strings.ToLower(scanner.Text()) == "y"\<close>: the only strings whose lower case is
  \<^verbatim>\<open>y\<close> are \<^verbatim>\<open>y\<close> and \<^verbatim>\<open>Y\<close>.
\<close>

definition isYes :: "string \<Rightarrow> bool" where
  "isYes line = (line = ''y'' \<or> line = ''Y'')"

definition getKeyFilePath :: "world \<Rightarrow> string" where
  "getKeyFilePath w = filepath_Join [Home w, KeyFile]"

definition readAuthKey :: "world \<Rightarrow> error + string" where
  "readAuthKey w =
     (case ReadKeyFile w of
        None \<Rightarrow> Inl ReadKeyFileFailed
      | Some data \<Rightarrow> Inr (TrimSpace data))"

text \<open>
  \<^verbatim>\<open>verifyServerCertificate\<close>: the two nested loops; \<open>None\<close> is the \<^verbatim>\<open>nil\<close> error.
\<close>

fun dnsNamesLoop :: "string list \<Rightarrow> bool" where
  "dnsNamesLoop [] = False"
| "dnsNamesLoop (dnsName # rest) = (if dnsName = ''xzip.com'' then True else dnsNamesLoop rest)"

fun certsLoop :: "Certificate list \<Rightarrow> error option" where
  "certsLoop [] = Some CertDomainMismatch"
| "certsLoop (cert # rest) =
     (if dnsNamesLoop (DNSNames cert) then None
      else if CommonName cert = ''xzip.com'' then None
      else certsLoop rest)"

definition verifyServerCertificate :: "Response \<Rightarrow> error option" where
  "verifyServerCertificate resp =
     (case TLS resp of
        None \<Rightarrow> Some NotHTTPS
      | Some peerCertificates \<Rightarrow> certsLoop peerCertificates)"

text \<open>\<^verbatim>\<open>validateAuth\<close>: the error it returns, if any, and the events of the call.\<close>

definition validateAuth :: "world \<Rightarrow> error option \<times> event list" where
  "validateAuth w =
     (case readAuthKey w of
        Inl err \<Rightarrow> (Some (AuthValidationFailed err), [])
      | Inr key \<Rightarrow>
     (case Marshal w key of
        None \<Rightarrow> (Some MarshalFailed, [])
      | Some jsonData \<Rightarrow>
     (case Post w AuthURL jsonData of
        None \<Rightarrow> (Some NetworkFailed, [HttpPost AuthURL jsonData])
      | Some resp \<Rightarrow>
     (case verifyServerCertificate resp of
        Some err \<Rightarrow> (Some err, [HttpPost AuthURL jsonData])
      | None \<Rightarrow>
     (case Body resp of
        None \<Rightarrow> (Some ReadResponseFailed, [HttpPost AuthURL jsonData])
      | Some body \<Rightarrow>
     (case Unmarshal w body of
        None \<Rightarrow> (Some ParseResponseFailed, [HttpPost AuthURL jsonData])
      | Some status \<Rightarrow>
          if status = - 1 then (Some AuthRejected, [HttpPost AuthURL jsonData])
          else if status \<noteq> 1 then (Some (StatusAbnormal status), [HttpPost AuthURL jsonData])
          else (None, [HttpPost AuthURL jsonData, Print AuthOK])))))))"

text \<open>\<^verbatim>\<open>initKeyFile\<close>, the same in both clients.\<close>

definition initKeyFile :: "world \<Rightarrow> error option \<times> event list" where
  "initKeyFile w =
     (let keyPath = getKeyFilePath w; keyDir = filepath_Dir keyPath in
      if \<not> MkdirAllOk w then (Some MkdirFailed, [MkdirAll keyDir 448])
      else if KeyFileStat w = NotExist then
        (if \<not> CreateOk w then (Some CreateKeyFileFailed, [MkdirAll keyDir 448, Create keyPath])
         else (Some KeyFileEmpty,
               [MkdirAll keyDir 448, Create keyPath, Print (KeyFileCreated keyPath),
                Print WriteKeyIntoFile]))
      else (None, [MkdirAll keyDir 448]))"

definition getPassword :: "world \<Rightarrow> (error + string) \<times> event list" where
  "getPassword w =
     (case ReadPassword w of
        None \<Rightarrow> (Inl PasswordReadFailed, [Print PasswordPrompt])
      | Some bytePassword \<Rightarrow> (Inr bytePassword, [Print PasswordPrompt, Print Newline]))"

text \<open>The two calls of \<^verbatim>\<open>main\<close> into the archive routines, each with the line it prints after.\<close>

definition runCompress :: "world \<Rightarrow> string \<Rightarrow> string \<Rightarrow> string \<Rightarrow> event list" where
  "runCompress w source target password =
     CompressToZip source target password #
     (case CompressResult w source target password of
        Some err \<Rightarrow> [Print (CompressFailed err)]
      | None \<Rightarrow> [Print (CompressDone target)])"

definition runExtract :: "world \<Rightarrow> string \<Rightarrow> string \<Rightarrow> string \<Rightarrow> event list" where
  "runExtract w source target password =
     (case extractFromZip (Files w) source target password of
        (Some err, evs) \<Rightarrow> evs @ [Print (ExtractFailed err)]
      | (None, evs) \<Rightarrow> evs @ [Print (ExtractDone target)])"

definition runExtractPlain :: "world \<Rightarrow> string \<Rightarrow> string \<Rightarrow> event list" where
  "runExtractPlain w source target =
     (case extractFromZipPlain (Files w) source target of
        (Some err, evs) \<Rightarrow> evs @ [Print (ExtractFailed err)]
      | (None, evs) \<Rightarrow> evs @ [Print (ExtractDone target)])"

text \<open>The part of \<^verbatim>\<open>main\<close> after the two gates: the switch on the command.\<close>

definition runCommand :: "world \<Rightarrow> event list" where
  "runCommand w =
     (if length (Args w) < 2 then [Print UsageHeader, Print UsageCompress, Print UsageExtract]
      else if Args w ! 1 = ''compress'' then
        (if length (Args w) < 4 then [Print CompressArgsMissing]
         else Print AskNeedPassword #
           (if isYes (StdinLine w) then
              (case getPassword w of
                 (Inl err, evs) \<Rightarrow> evs @ [Print PasswordInputFailed]
               | (Inr password, evs) \<Rightarrow> evs @ runCompress w (Args w ! 2) (Args w ! 3) password)
            else runCompress w (Args w ! 2) (Args w ! 3) []))
      else if Args w ! 1 = ''extract'' then
        (if length (Args w) < 4 then [Print ExtractArgsMissing]
         else Print AskHasPassword #
           (if isYes (StdinLine w) then
              (case getPassword w of
                 (Inl err, evs) \<Rightarrow> evs @ [Print PasswordInputFailed]
               | (Inr password, evs) \<Rightarrow> evs @ runExtract w (Args w ! 2) (Args w ! 3) password)
            else runExtract w (Args w ! 2) (Args w ! 3) []))
      else [Print (UnknownCommand (Args w ! 1)), Print SupportedCommands])"

definition runCommandPlain :: "world \<Rightarrow> event list" where
  "runCommandPlain w =
     (if length (Args w) < 2 then [Print UsageHeader, Print UsageCompress, Print UsageExtract]
      else if Args w ! 1 = ''compress'' then
        (if length (Args w) < 4 then [Print CompressArgsMissing]
         else runCompress w (Args w ! 2) (Args w ! 3) [])
      else if Args w ! 1 = ''extract'' then
        (if length (Args w) < 4 then [Print ExtractArgsMissing]
         else runExtractPlain w (Args w ! 2) (Args w ! 3))
      else [Print (UnknownCommand (Args w ! 1)), Print SupportedCommands])"

text \<open>
  \<^verbatim>\<open>main\<close> of the client with passwords and of the client without: the events of a
  whole run.
\<close>

definition main :: "world \<Rightarrow> event list" where
  "main w =
     Print Title # Print Rule #
     (case initKeyFile w of
        (Some err, evs) \<Rightarrow> evs @ [Print (InitFailed err)]
      | (None, evs) \<Rightarrow>
          evs @
          (case validateAuth w of
             (Some err, evs') \<Rightarrow> evs' @ [Print (Failed err)]
           | (None, evs') \<Rightarrow> evs' @ runCommand w))"

definition mainPlain :: "world \<Rightarrow> event list" where
  "mainPlain w =
     Print TitlePlain # Print Rule #
     (case initKeyFile w of
        (Some err, evs) \<Rightarrow> evs @ [Print (InitFailed err)]
      | (None, evs) \<Rightarrow>
          evs @
          (case validateAuth w of
             (Some err, evs') \<Rightarrow> evs' @ [Print (Failed err)]
           | (None, evs') \<Rightarrow> evs' @ runCommandPlain w))"

text \<open>
  Archive work, for the statements about the gate: a call of \<^verbatim>\<open>compressToZip\<close>, the
  opening of an archive (the first call of \<^verbatim>\<open>extractFromZip\<close>), the opening of a file
  for writing, a write. The POSTs of a run are its authorization requests.
\<close>

fun isArchiveWork :: "event \<Rightarrow> bool" where
  "isArchiveWork (CompressToZip source target password) = True"
| "isArchiveWork (OpenReaderCall source) = True"
| "isArchiveWork (OpenFile path mode) = True"
| "isArchiveWork (Write path bytes) = True"
| "isArchiveWork e = False"

fun isHttpPost :: "event \<Rightarrow> bool" where
  "isHttpPost (HttpPost url body) = True"
| "isHttpPost e = False"

section \<open>Sample runs of the client\<close>

text \<open>
  Responses: one over TLS with a certificate for \<^verbatim>\<open>xzip.com\<close>, one over TLS with a
  certificate for another name, one over plain HTTP. A world is built from the content
  of the key file, what \<^verbatim>\<open>os.Stat\<close> says of it, the response of the endpoint and the
  status parsed from its body; the command line asks to compress \<^verbatim>\<open>src\<close> into
  \<^verbatim>\<open>out.zip\<close> without a password.
\<close>

definition pinnedResponse :: Response where
  "pinnedResponse =
     \<lparr>TLS = Some [\<lparr>DNSNames = [''www.xzip.com'', ''xzip.com''], CommonName = ''xzip''\<rparr>],
      Body = Some ''body''\<rparr>"

definition foreignResponse :: Response where
  "foreignResponse =
     \<lparr>TLS = Some [\<lparr>DNSNames = [''example.org''], CommonName = ''example.org''\<rparr>],
      Body = Some ''body''\<rparr>"

definition plainResponse :: Response where
  "plainResponse = \<lparr>TLS = None, Body = Some ''body''\<rparr>"

definition sampleWorld :: "string option \<Rightarrow> statResult \<Rightarrow> Response \<Rightarrow> go_int \<Rightarrow> world" where
  "sampleWorld keyData stat resp status =
     \<lparr>Home = ''/home/u'', MkdirAllOk = True, KeyFileStat = stat, CreateOk = True,
      ReadKeyFile = keyData, Marshal = (\<lambda>key. Some (''key='' @ key)),
      Post = (\<lambda>url body. Some resp), Unmarshal = (\<lambda>body. Some status),
      Args = [''xzip'', ''compress'', ''src'', ''out.zip''], StdinLine = ''n'',
      ReadPassword = None, CompressResult = (\<lambda>source target password. None),
      Files = \<lparr>OpenReader = (\<lambda>path. None), OpenFileOk = (\<lambda>path. True),
               CopyOk = (\<lambda>path. True)\<rparr>\<rparr>"

section \<open>Validation\<close>

lemma sint_succ_below:
  fixes x y :: go_int
  assumes "x <s y"
  shows "sint (x + 1) = sint x + 1"
proof -
  have "sint x < sint y"
    using assms by (simp add: word_sless_alt)
  moreover have "sint y < 2 ^ 63"
    using sint_lt [of y] by simp
  moreover have "- (2 ^ 63) \<le> sint x"
    using sint_ge [of x] by simp
  ultimately have "signed_take_bit 63 (sint x + 1) = sint x + 1"
    by (intro signed_take_bit_int_eq_self) simp_all
  then show ?thesis
    by (simp add: sint_word_add)
qed

text \<open>
  C1. A key whose record exists, is enabled, is read strictly before its expiry and has
  a usage count below its ceiling is accepted by one validation call: the status is 1,
  the record's usage count is one more than before (as a number, with no wrap-around),
  its other fields are those of before and no other key's record changes.
\<close>

theorem validateKey_accepts:
  assumes "map_of db key = Some r"
    and "Valid r"
    and "now < ExpiresAt r"
    and "UsageCount r <s MaxUsage r"
  shows "snd (validateKey db key now) = 1
    \<and> map_of (fst (validateKey db key now)) key = Some (r\<lparr>UsageCount := UsageCount r + 1\<rparr>)
    \<and> sint (UsageCount r + 1) = sint (UsageCount r) + 1
    \<and> (\<forall>k. k \<noteq> key \<longrightarrow> map_of (fst (validateKey db key now)) k = map_of db k)"
proof -
  have "\<not> MaxUsage r \<le>s UsageCount r"
    using assms(4) by (simp add: word_sless_alt word_sle_eq)
  then have "validateKey db key now = (AList.update key (r\<lparr>UsageCount := UsageCount r + 1\<rparr>) db, 1)"
    using assms(1-3) by (simp add: validateKey_def)
  then show ?thesis
    using sint_succ_below [OF assms(4)] by (simp add: update_conv')
qed

theorem validateKey_accepts_witness:
  "snd (validateKey [(''k1'', \<lparr>Valid = True, CreatedAt = 0, ExpiresAt = 10,
        UsageCount = 2, MaxUsage = 3\<rparr>)] ''k1'' 5) = 1
   \<and> map_of (fst (validateKey [(''k1'', \<lparr>Valid = True, CreatedAt = 0, ExpiresAt = 10,
        UsageCount = 2, MaxUsage = 3\<rparr>)] ''k1'' 5)) ''k1''
      = Some \<lparr>Valid = True, CreatedAt = 0, ExpiresAt = 10, UsageCount = 3, MaxUsage = 3\<rparr>"
  using validateKey_accepts [of "[(''k1'', \<lparr>Valid = True, CreatedAt = 0, ExpiresAt = 10,
        UsageCount = 2, MaxUsage = 3\<rparr>)]" "''k1''"
      "\<lparr>Valid = True, CreatedAt = 0, ExpiresAt = 10, UsageCount = 2, MaxUsage = 3\<rparr>" 5]
  by (simp add: word_sless_alt)

lemma validateKey_step:
  assumes "map_of db k = Some r"
  shows "\<exists>r'. map_of (fst (validateKey db key now)) k = Some r'
    \<and> Valid r' = Valid r \<and> ExpiresAt r' = ExpiresAt r \<and> MaxUsage r' = MaxUsage r
    \<and> UsageCount r \<le>s UsageCount r'
    \<and> (UsageCount r \<le>s MaxUsage r \<longrightarrow> UsageCount r' \<le>s MaxUsage r')"
proof (cases "k = key \<and> Valid r \<and> \<not> now > ExpiresAt r \<and> \<not> MaxUsage r \<le>s UsageCount r")
  case True
  then have lt: "UsageCount r <s MaxUsage r"
    by (simp add: word_sless_alt word_sle_eq)
  have "validateKey db key now = (AList.update key (r\<lparr>UsageCount := UsageCount r + 1\<rparr>) db, 1)"
    using True assms by (simp add: validateKey_def)
  moreover have "sint (UsageCount r) \<le> sint (UsageCount r + 1)"
    and "sint (UsageCount r + 1) \<le> sint (MaxUsage r)"
    using sint_succ_below [OF lt] lt by (simp_all add: word_sless_alt)
  ultimately show ?thesis
    using True by (simp add: update_conv' word_sle_eq)
next
  case False
  then have "map_of (fst (validateKey db key now)) k = Some r"
    using assms by (auto simp: validateKey_def update_conv' split: option.splits)
  then show ?thesis
    by simp
qed

lemma validateCalls_invariant:
  assumes "map_of db k = Some r"
  shows "\<exists>r'. map_of (validateCalls db calls) k = Some r'
    \<and> MaxUsage r' = MaxUsage r
    \<and> UsageCount r \<le>s UsageCount r'
    \<and> (UsageCount r \<le>s MaxUsage r \<longrightarrow> UsageCount r' \<le>s MaxUsage r')"
  using assms
proof (induction calls arbitrary: db r)
  case Nil
  then show ?case by simp
next
  case (Cons c calls)
  obtain key now where c: "c = (key, now)"
    by (cases c)
  obtain r1 where r1: "map_of (fst (validateKey db key now)) k = Some r1"
    "MaxUsage r1 = MaxUsage r" "UsageCount r \<le>s UsageCount r1"
    "UsageCount r \<le>s MaxUsage r \<longrightarrow> UsageCount r1 \<le>s MaxUsage r1"
    using validateKey_step [OF Cons.prems, of key now] by blast
  obtain r' where r': "map_of (validateCalls (fst (validateKey db key now)) calls) k = Some r'"
    "MaxUsage r' = MaxUsage r1" "UsageCount r1 \<le>s UsageCount r'"
    "UsageCount r1 \<le>s MaxUsage r1 \<longrightarrow> UsageCount r' \<le>s MaxUsage r'"
    using Cons.IH [OF r1(1)] by blast
  show ?case
    using r1 r' c by (auto simp: word_sle_eq)
qed

lemma validateKey_at_ceiling:
  assumes "map_of db key = Some r" and "UsageCount r = MaxUsage r"
  shows "validateKey db key now = (db, - 1)"
  using assms by (simp add: validateKey_def)

text \<open>
  What an insertion stores, and that every operation keeps the keys of the registry
  distinct.
\<close>

lemma addKeyHandler_issues:
  "map_of (addKeyHandler db ''POST'' newKey t1 t2) newKey
     = Some \<lparr>Valid = True, CreatedAt = t1, ExpiresAt = t2 + 365 * 24 * Hour,
             UsageCount = 0, MaxUsage = 1000\<rparr>
   \<and> (0 :: go_int) \<le>s 1000"
  by (simp add: addKeyHandler_def update_conv' word_sle_eq)

lemma initTestKeys_issues:
  "\<exists>r. map_of (initTestKeys db testKey invalidKey t1 t2 t3 t4) invalidKey = Some r
     \<and> \<not> Valid r \<and> UsageCount r = 0 \<and> MaxUsage r = 100"
  by (simp add: initTestKeys_def update_conv')

lemma distinct_keys_preserved:
  assumes "distinct (map fst db)"
  shows "distinct (map fst (addKeyHandler db method newKey t1 t2))"
    and "distinct (map fst (initTestKeys db testKey invalidKey t1 t2 t3 t4))"
    and "distinct (map fst (fst (validateKey db key now)))"
  using assms
  by (auto simp: addKeyHandler_def initTestKeys_def validateKey_def distinct_update
      split: option.splits)

lemma withinCeiling_update:
  assumes "withinCeiling db" and "0 \<le>s UsageCount r" and "UsageCount r \<le>s MaxUsage r"
    and "MaxUsage r \<le>s 1000"
  shows "withinCeiling (AList.update key r db)"
  using assms by (induction db) (auto simp: withinCeiling_def)

lemma withinCeiling_lookup:
  assumes "withinCeiling db" and "map_of db key = Some r"
  shows "0 \<le>s UsageCount r \<and> UsageCount r \<le>s MaxUsage r \<and> MaxUsage r \<le>s 1000"
  using assms map_of_SomeD [OF assms(2)] by (auto simp: withinCeiling_def list_all_iff)

lemma withinCeiling_validateKey:
  assumes "withinCeiling db"
  shows "withinCeiling (fst (validateKey db key now))"
proof (cases "snd (validateKey db key now) = 1")
  case False
  then have "fst (validateKey db key now) = db"
    by (auto simp: validateKey_def split: option.splits if_splits)
  then show ?thesis
    using assms by simp
next
  case True
  then obtain r where r: "map_of db key = Some r" "\<not> MaxUsage r \<le>s UsageCount r"
    "fst (validateKey db key now) = AList.update key (r\<lparr>UsageCount := UsageCount r + 1\<rparr>) db"
    by (auto simp: validateKey_def split: option.splits if_splits)
  then have lt: "UsageCount r <s MaxUsage r"
    by (simp add: word_sless_alt word_sle_eq)
  have old: "0 \<le>s UsageCount r \<and> UsageCount r \<le>s MaxUsage r \<and> MaxUsage r \<le>s 1000"
    using withinCeiling_lookup [OF assms r(1)] .
  have "withinCeiling (AList.update key (r\<lparr>UsageCount := UsageCount r + 1\<rparr>) db)"
    using assms old lt sint_succ_below [OF lt]
    by (intro withinCeiling_update) (simp_all add: word_sle_eq word_sless_alt)
  then show ?thesis
    using r(3) by simp
qed

lemma withinCeiling_addKeyHandler:
  assumes "withinCeiling db"
  shows "withinCeiling (addKeyHandler db method newKey t1 t2)"
  using assms by (auto simp: addKeyHandler_def word_sle_eq intro!: withinCeiling_update)

lemma withinCeiling_initTestKeys:
  "withinCeiling (initTestKeys [] testKey invalidKey t1 t2 t3 t4)"
  by (auto simp: initTestKeys_def withinCeiling_def word_sle_eq)

lemma withinCeiling_server:
  assumes "withinCeiling db"
  shows "withinCeiling (foldl serverStep db calls)"
  using assms
proof (induction calls arbitrary: db)
  case Nil
  then show ?case by simp
next
  case (Cons c calls)
  have "withinCeiling (serverStep db c)"
    using Cons.prems
    by (cases c) (simp_all add: withinCeiling_validateKey withinCeiling_addKeyHandler)
  then show ?case
    using Cons.IH by simp
qed

text \<open>
  In every registry the server reaches, every record's count is between 0 and its
  ceiling: the hypothesis "within the ceiling before" of the invariant below always
  holds there.
\<close>

lemma reachable_within_ceiling:
  assumes "map_of (foldl serverStep (initTestKeys [] testKey invalidKey t1 t2 t3 t4) calls) key
    = Some r"
  shows "0 \<le>s UsageCount r \<and> UsageCount r \<le>s MaxUsage r \<and> MaxUsage r \<le>s 1000"
  using withinCeiling_lookup [OF withinCeiling_server [OF withinCeiling_initTestKeys] assms] .

text \<open>
  C2. Over every sequence of validation calls, on any keys at any instants, the usage
  count of a record does not decrease, its ceiling does not change, and a count that
  was within the ceiling before the sequence is within it after. A validation call on
  a record whose count equals its ceiling returns -1 and leaves the registry as it was.
\<close>

theorem usageCount_monotone_bounded:
  assumes "map_of db key = Some r"
  shows "(\<exists>r'. map_of (validateCalls db calls) key = Some r'
      \<and> MaxUsage r' = MaxUsage r
      \<and> sint (UsageCount r) \<le> sint (UsageCount r')
      \<and> (sint (UsageCount r) \<le> sint (MaxUsage r)
           \<longrightarrow> sint (UsageCount r') \<le> sint (MaxUsage r')))
    \<and> (UsageCount r = MaxUsage r \<longrightarrow> validateKey db key now = (db, - 1))"
  using validateCalls_invariant [OF assms, of calls] validateKey_at_ceiling [OF assms, of now]
  by (auto simp: word_sle_eq)

theorem usageCount_monotone_bounded_witness:
  "(\<exists>r'. map_of (validateCalls
        [(''k1'', \<lparr>Valid = True, CreatedAt = 0, ExpiresAt = 10, UsageCount = 2, MaxUsage = 3\<rparr>)]
        [(''k1'', 5), (''k2'', 6), (''k1'', 7)]) ''k1'' = Some r'
      \<and> MaxUsage r' = 3 \<and> 2 \<le> sint (UsageCount r') \<and> sint (UsageCount r') \<le> 3)
   \<and> validateKey
        [(''k1'', \<lparr>Valid = True, CreatedAt = 0, ExpiresAt = 10, UsageCount = 3, MaxUsage = 3\<rparr>)]
        ''k1'' 5
      = ([(''k1'', \<lparr>Valid = True, CreatedAt = 0, ExpiresAt = 10, UsageCount = 3, MaxUsage = 3\<rparr>)],
         - 1)"
  using usageCount_monotone_bounded
      [of "[(''k1'', \<lparr>Valid = True, CreatedAt = 0, ExpiresAt = 10, UsageCount = 2, MaxUsage = 3\<rparr>)]"
        "''k1''"
        "\<lparr>Valid = True, CreatedAt = 0, ExpiresAt = 10, UsageCount = 2, MaxUsage = 3\<rparr>"
        "[(''k1'', 5), (''k2'', 6), (''k1'', 7)]"]
    usageCount_monotone_bounded
      [of "[(''k1'', \<lparr>Valid = True, CreatedAt = 0, ExpiresAt = 10, UsageCount = 3, MaxUsage = 3\<rparr>)]"
        "''k1''"
        "\<lparr>Valid = True, CreatedAt = 0, ExpiresAt = 10, UsageCount = 3, MaxUsage = 3\<rparr>"
        "[]" 5]
  by auto

text \<open>
  C3, at the instant of expiry. The expiry check of \<^verbatim>\<open>validateKey\<close> is
  \<^verbatim>\<open>time.Now().After(keyInfo.ExpiresAt)\<close>, which is false when the clock reads
  exactly \<open>ExpiresAt\<close>: the call below, at that instant, returns 1 and counts a use.
  \<^verbatim>\<open>statsHandler\<close>, at the same instant, does not count the key as valid
  (\<^verbatim>\<open>time.Now().Before(keyInfo.ExpiresAt)\<close>).
\<close>

theorem expiry_instant_still_accepted:
  "validateKey
     [(''k1'', \<lparr>Valid = True, CreatedAt = 0, ExpiresAt = 10, UsageCount = 0, MaxUsage = 1000\<rparr>)]
     ''k1'' 10
   = ([(''k1'', \<lparr>Valid = True, CreatedAt = 0, ExpiresAt = 10, UsageCount = 1, MaxUsage = 1000\<rparr>)],
      1)
   \<and> valid_keys (statsHandler
        [(''k1'', \<lparr>Valid = True, CreatedAt = 0, ExpiresAt = 10, UsageCount = 0, MaxUsage = 1000\<rparr>)]
        (\<lambda>i. 10)) = 0"
  by (simp add: validateKey_def statsHandler_def word_sle_eq)

text \<open>Strictly after the expiry the call is rejected, whatever the other fields are.\<close>

lemma validateKey_rejects_after_expiry:
  assumes "map_of db key = Some r" and "ExpiresAt r < now"
  shows "validateKey db key now = (db, - 1)"
  using assms by (simp add: validateKey_def)

lemma validateKeyTimes_quota:
  assumes "map_of db key = Some r" and "Valid r" and "UsageCount r \<le>s MaxUsage r"
    and "length nows = Suc (nat (sint (MaxUsage r) - sint (UsageCount r)))"
    and "\<forall>t\<in>set nows. \<not> t > ExpiresAt r"
  shows "snd (validateKeyTimes db key nows)
    = replicate (nat (sint (MaxUsage r) - sint (UsageCount r))) 1 @ [- 1]"
  using assms
proof (induction nows arbitrary: db r)
  case Nil
  then show ?case by simp
next
  case (Cons t ts)
  show ?case
  proof (cases "UsageCount r = MaxUsage r")
    case True
    then have "ts = []"
      using Cons.prems(4) by simp
    then show ?thesis
      using True validateKey_at_ceiling [OF Cons.prems(1) True, of t] by simp
  next
    case False
    then have lt: "UsageCount r <s MaxUsage r"
      using Cons.prems(3) by (simp add: signed.less_le)
    let ?r' = "r\<lparr>UsageCount := UsageCount r + 1\<rparr>"
    let ?db' = "AList.update key ?r' db"
    have step: "validateKey db key t = (?db', 1)"
      using Cons.prems(1,2,5) lt by (simp add: validateKey_def word_sless_alt word_sle_eq)
    have suc: "sint (UsageCount ?r') = sint (UsageCount r) + 1"
      using sint_succ_below [OF lt] by simp
    have le: "UsageCount ?r' \<le>s MaxUsage ?r'"
      using suc lt by (simp add: word_sless_alt word_sle_eq)
    have n: "nat (sint (MaxUsage r) - sint (UsageCount r))
      = Suc (nat (sint (MaxUsage ?r') - sint (UsageCount ?r')))"
      using suc lt by (simp add: word_sless_alt)
    have len: "length ts = Suc (nat (sint (MaxUsage ?r') - sint (UsageCount ?r')))"
      using Cons.prems(4) n by simp
    have "snd (validateKeyTimes ?db' key ts)
      = replicate (nat (sint (MaxUsage ?r') - sint (UsageCount ?r'))) 1 @ [- 1]"
      using Cons.prems(2,5) le len
      by (intro Cons.IH) (simp_all add: update_conv')
    moreover obtain db'' statuses where "validateKeyTimes ?db' key ts = (db'', statuses)"
      by (cases "validateKeyTimes ?db' key ts")
    ultimately show ?thesis
      using step n by simp
  qed
qed

text \<open>
  C4. A record that is enabled, has usage count 0 and a ceiling \<open>n \<ge> 0\<close>, validated
  \<open>n + 1\<close> times in a row on its key at instants strictly before its expiry: the first
  \<open>n\<close> calls return 1 and the last returns -1.
\<close>

theorem at_most_MaxUsage_accepts:
  assumes "map_of db key = Some r"
    and "Valid r"
    and "UsageCount r = 0"
    and "0 \<le>s MaxUsage r"
    and "length nows = Suc (nat (sint (MaxUsage r)))"
    and "\<forall>t\<in>set nows. t < ExpiresAt r"
  shows "snd (validateKeyTimes db key nows) = replicate (nat (sint (MaxUsage r))) 1 @ [- 1]"
proof -
  have "\<forall>t\<in>set nows. \<not> t > ExpiresAt r"
    using assms(6) by auto
  then show ?thesis
    using validateKeyTimes_quota [of db key r nows] assms(1-5) by simp
qed

theorem at_most_MaxUsage_accepts_witness:
  "snd (validateKeyTimes
     [(''k1'', \<lparr>Valid = True, CreatedAt = 0, ExpiresAt = 10, UsageCount = 0, MaxUsage = 2\<rparr>)]
     ''k1'' [1, 2, 3]) = [1, 1, - 1]"
  using at_most_MaxUsage_accepts
      [of "[(''k1'', \<lparr>Valid = True, CreatedAt = 0, ExpiresAt = 10, UsageCount = 0, MaxUsage = 2\<rparr>)]"
        "''k1''"
        "\<lparr>Valid = True, CreatedAt = 0, ExpiresAt = 10, UsageCount = 0, MaxUsage = 2\<rparr>"
        "[1, 2, 3]"]
  by (simp add: word_sle_eq numeral_2_eq_2)

section \<open>Statistics\<close>

lemma statsLoop_constant_clock:
  "statsLoop db (\<lambda>i. now) i validKeys totalUsage =
     (validKeys
        + of_nat (length (filter (\<lambda>(key, keyInfo). Valid keyInfo \<and> now < ExpiresAt keyInfo) db)),
      totalUsage + sum_list (map (\<lambda>(key, keyInfo). UsageCount keyInfo) db))"
proof (induction db arbitrary: i validKeys totalUsage)
  case Nil
  then show ?case by simp
next
  case (Cons e db)
  obtain key keyInfo where e: "e = (key, keyInfo)"
    by (cases e)
  show ?case
    unfolding e by (simp add: Cons.IH add.assoc)
qed

text \<open>
  C9. A statistics call made at one instant \<open>now\<close> (every clock reading of the call is
  \<open>now\<close>) on a registry of \<open>N\<close> records, \<open>K\<close> of them enabled and strictly before
  their expiry, reports \<open>total_keys = N\<close>, \<open>valid_keys = K\<close> and as \<open>total_usage\<close>
  the sum of the usage counts of all records, the counters being Go integers.
\<close>

theorem statsHandler_aggregates:
  "statsHandler db (\<lambda>i. now) =
     \<lparr>total_keys = of_nat (length db),
      valid_keys =
        of_nat (length (filter (\<lambda>(key, keyInfo). Valid keyInfo \<and> now < ExpiresAt keyInfo) db)),
      total_usage = sum_list (map (\<lambda>(key, keyInfo). UsageCount keyInfo) db),
      server_time = now\<rparr>"
  by (simp add: statsHandler_def statsLoop_constant_clock)

text \<open>
  The entries of the list are the records of the map when the keys are distinct, which
  every operation of the server preserves (\<open>distinct_keys_preserved\<close>).
\<close>

lemma card_dom_registry:
  assumes "distinct (map fst db)"
  shows "card (dom (map_of db)) = length db"
  using assms by (simp add: dom_map_of_conv_image_fst distinct_card flip: set_map)

text \<open>
  A \<^verbatim>\<open>range\<close> loop visits the entries of a map in no fixed order; the response does not
  depend on it.
\<close>

lemma statsHandler_order:
  assumes "mset db = mset db'"
  shows "statsHandler db (\<lambda>i. now) = statsHandler db' (\<lambda>i. now)"
proof -
  let ?P = "\<lambda>(key, keyInfo). Valid keyInfo \<and> now < ExpiresAt keyInfo"
  let ?f = "\<lambda>(key, keyInfo). UsageCount keyInfo"
  have "length db = length db'"
    using assms by (rule mset_eq_length)
  moreover have "mset (filter ?P db) = mset (filter ?P db')"
    using assms by simp
  then have "length (filter ?P db) = length (filter ?P db')"
    by (rule mset_eq_length)
  moreover have "mset (map ?f db) = mset (map ?f db')"
    using assms by simp
  then have "sum_list (map ?f db) = sum_list (map ?f db')"
    by (metis sum_mset_sum_list)
  ultimately show ?thesis
    by (simp add: statsHandler_def statsLoop_constant_clock)
qed

text \<open>
  The sum of a list of Go integers is the sum of their values, wrapped to 64 bits; it is
  the exact sum whenever that fits. On a registry of this server it fits unless the
  registry holds \<open>2 ^ 63 / 1000\<close> records or more: each count is between 0 and 1000.
\<close>

lemma signed_take_bit_sint64:
  fixes w :: go_int
  shows "signed_take_bit 63 (sint w) = sint w"
  using sint_ge [of w] sint_lt [of w] by (intro signed_take_bit_int_eq_self) simp_all

lemma sint_sum_list:
  fixes ws :: "go_int list"
  shows "sint (sum_list ws) = signed_take_bit 63 (sum_list (map sint ws))"
proof (induction ws)
  case Nil
  then show ?case by simp
next
  case (Cons w ws)
  have "sint (w + sum_list ws)
    = signed_take_bit 63 (signed_take_bit 63 (sint w) + signed_take_bit 63 (sum_list (map sint ws)))"
    by (simp add: sint_word_add Cons.IH signed_take_bit_sint64)
  also have "\<dots> = signed_take_bit 63 (sint w + sum_list (map sint ws))"
    by (rule signed_take_bit_add)
  finally show ?case by simp
qed

lemma total_usage_exact:
  assumes "- (2 ^ 63) \<le> (\<Sum>(key, keyInfo)\<leftarrow>db. sint (UsageCount keyInfo))"
    and "(\<Sum>(key, keyInfo)\<leftarrow>db. sint (UsageCount keyInfo)) < 2 ^ 63"
  shows "sint (total_usage (statsHandler db (\<lambda>i. now)))
    = (\<Sum>(key, keyInfo)\<leftarrow>db. sint (UsageCount keyInfo))"
proof -
  let ?ws = "map (\<lambda>(key, keyInfo). UsageCount keyInfo) db"
  have "sum_list (map sint ?ws) = (\<Sum>(key, keyInfo)\<leftarrow>db. sint (UsageCount keyInfo))"
    by (induction db) auto
  moreover have "total_usage (statsHandler db (\<lambda>i. now)) = sum_list ?ws"
    by (simp add: statsHandler_def statsLoop_constant_clock)
  ultimately have "sint (total_usage (statsHandler db (\<lambda>i. now)))
    = signed_take_bit 63 (\<Sum>(key, keyInfo)\<leftarrow>db. sint (UsageCount keyInfo))"
    using sint_sum_list [of ?ws] by simp
  then show ?thesis
    using assms by (simp add: signed_take_bit_int_eq_self)
qed

lemma usage_sum_bounds:
  assumes "withinCeiling db"
  shows "0 \<le> (\<Sum>(key, keyInfo)\<leftarrow>db. sint (UsageCount keyInfo))
    \<and> (\<Sum>(key, keyInfo)\<leftarrow>db. sint (UsageCount keyInfo)) \<le> 1000 * int (length db)"
  using assms
proof (induction db)
  case Nil
  then show ?case by simp
next
  case (Cons e db)
  obtain key keyInfo where e: "e = (key, keyInfo)"
    by (cases e)
  have "0 \<le> sint (UsageCount keyInfo)" and "sint (UsageCount keyInfo) \<le> 1000"
    using Cons.prems by (simp_all add: e withinCeiling_def word_sle_eq)
  moreover have "withinCeiling db"
    using Cons.prems by (simp add: withinCeiling_def)
  ultimately show ?case
    using Cons.IH by (simp add: e)
qed

lemma total_usage_of_server:
  assumes "withinCeiling db" and "1000 * int (length db) < 2 ^ 63"
  shows "sint (total_usage (statsHandler db (\<lambda>i. now)))
    = (\<Sum>(key, keyInfo)\<leftarrow>db. sint (UsageCount keyInfo))"
  using usage_sum_bounds [OF assms(1)] assms(2) by (intro total_usage_exact) simp_all

section \<open>Extraction\<close>

lemma extractFromZip_single_entry:
  "extractFromZip
     \<lparr>OpenReader = (\<lambda>archive. Some [\<lparr>Name = name, IsDir = False, Mode = mode,
        IsEncrypted = False, Open = Some bytes, OpenWithPassword = (\<lambda>pw. None)\<rparr>]),
      OpenFileOk = (\<lambda>path. True), CopyOk = (\<lambda>path. True)\<rparr>
     source target password
   = (None,
      [Print (Extracting source target), OpenReaderCall source, MkdirAll target 493,
       MkdirAll (filepath_Dir (filepath_Join [target, name])) 493,
       OpenFile (filepath_Join [target, name]) mode,
       Write (filepath_Join [target, name]) bytes])"
  by (simp add: extractFromZip_def Let_def)

lemma extractFromZipPlain_single_entry:
  "extractFromZipPlain
     \<lparr>OpenReader = (\<lambda>archive. Some [\<lparr>Name = name, IsDir = False, Mode = mode,
        IsEncrypted = False, Open = Some bytes, OpenWithPassword = (\<lambda>pw. None)\<rparr>]),
      OpenFileOk = (\<lambda>path. True), CopyOk = (\<lambda>path. True)\<rparr>
     source target
   = (None,
      [Print (Extracting source target), OpenReaderCall source, MkdirAll target 493,
       MkdirAll (filepath_Dir (filepath_Join [target, name])) 493,
       OpenFile (filepath_Join [target, name]) mode,
       Write (filepath_Join [target, name]) bytes])"
  by (simp add: extractFromZipPlain_def Let_def)

lemma Join_leaves_relative_target:
  "filepath_Join [''out'', ''../evil.txt''] = ''evil.txt''"
  by (simp add: filepath_Join_def filepath_Clean_def isRooted_def)

lemma Join_leaves_rooted_target:
  "filepath_Join [''/srv/out'', ''../../etc/passwd''] = ''/etc/passwd''"
  by (simp add: filepath_Join_def filepath_Clean_def isRooted_def)

lemma Join_stays_in_target:
  "withinDir ''out'' (filepath_Join [''out'', ''a/./b.txt''])"
  by (simp add: withinDir_def pathElems_def isRooted_def filepath_Join_def filepath_Clean_def)

text \<open>
  C5. Both extraction routines write a file entry, whatever its name, at
  \<^verbatim>\<open>filepath.Join(target, name)\<close>, after creating that path's parent directory: no
  test of the joined path stands between the join and the write. For the target
  \<^verbatim>\<open>out\<close> the entry name \<^verbatim>\<open>../evil.txt\<close> gives the destination \<^verbatim>\<open>evil.txt\<close>, and for
  the target \<^verbatim>\<open>/srv/out\<close> the name \<^verbatim>\<open>../../etc/passwd\<close> gives \<^verbatim>\<open>/etc/passwd\<close>; neither
  lies within its target.
\<close>

theorem extraction_leaves_target:
  "extractFromZip
     \<lparr>OpenReader = (\<lambda>archive. Some [\<lparr>Name = name, IsDir = False, Mode = mode,
        IsEncrypted = False, Open = Some bytes, OpenWithPassword = (\<lambda>pw. None)\<rparr>]),
      OpenFileOk = (\<lambda>path. True), CopyOk = (\<lambda>path. True)\<rparr>
     source target password
   = (None,
      [Print (Extracting source target), OpenReaderCall source, MkdirAll target 493,
       MkdirAll (filepath_Dir (filepath_Join [target, name])) 493,
       OpenFile (filepath_Join [target, name]) mode,
       Write (filepath_Join [target, name]) bytes])
   \<and> extractFromZipPlain
     \<lparr>OpenReader = (\<lambda>archive. Some [\<lparr>Name = name, IsDir = False, Mode = mode,
        IsEncrypted = False, Open = Some bytes, OpenWithPassword = (\<lambda>pw. None)\<rparr>]),
      OpenFileOk = (\<lambda>path. True), CopyOk = (\<lambda>path. True)\<rparr>
     source target
   = (None,
      [Print (Extracting source target), OpenReaderCall source, MkdirAll target 493,
       MkdirAll (filepath_Dir (filepath_Join [target, name])) 493,
       OpenFile (filepath_Join [target, name]) mode,
       Write (filepath_Join [target, name]) bytes])
   \<and> filepath_Join [''out'', ''../evil.txt''] = ''evil.txt''
   \<and> \<not> withinDir ''out'' (filepath_Join [''out'', ''../evil.txt''])
   \<and> filepath_Join [''/srv/out'', ''../../etc/passwd''] = ''/etc/passwd''
   \<and> \<not> withinDir ''/srv/out'' (filepath_Join [''/srv/out'', ''../../etc/passwd''])"
proof -
  have "\<not> withinDir ''out'' ''evil.txt''"
    by (simp add: withinDir_def pathElems_def isRooted_def)
  moreover have "\<not> withinDir ''/srv/out'' ''/etc/passwd''"
    by (simp add: withinDir_def pathElems_def isRooted_def)
  ultimately show ?thesis
    by (simp only: extractFromZip_single_entry extractFromZipPlain_single_entry
        Join_leaves_relative_target Join_leaves_rooted_target simp_thms)
qed

section \<open>The authorization gate\<close>

lemma dnsNamesLoop_iff: "dnsNamesLoop names \<longleftrightarrow> ''xzip.com'' \<in> set names"
  by (induction names) auto

lemma certsLoop_None_iff:
  "certsLoop certs = None
    \<longleftrightarrow> (\<exists>cert\<in>set certs. ''xzip.com'' \<in> set (DNSNames cert) \<or> CommonName cert = ''xzip.com'')"
  by (induction certs) (auto simp: dnsNamesLoop_iff)

lemma verifyServerCertificate_None_iff:
  "verifyServerCertificate resp = None
    \<longleftrightarrow> (\<exists>certs. TLS resp = Some certs
         \<and> (\<exists>cert\<in>set certs. ''xzip.com'' \<in> set (DNSNames cert) \<or> CommonName cert = ''xzip.com''))"
  by (cases "TLS resp") (simp_all add: verifyServerCertificate_def certsLoop_None_iff)

lemma validateAuth_ok_iff:
  "fst (validateAuth w) = None
    \<longleftrightarrow> (\<exists>data body resp raw. ReadKeyFile w = Some data
          \<and> Marshal w (TrimSpace data) = Some body
          \<and> Post w AuthURL body = Some resp
          \<and> verifyServerCertificate resp = None
          \<and> Body resp = Some raw
          \<and> Unmarshal w raw = Some 1)"
  by (auto simp: validateAuth_def readAuthKey_def split: option.splits sum.splits)

lemma validateAuth_cert_error:
  assumes "ReadKeyFile w = Some data"
    and "Marshal w (TrimSpace data) = Some body"
    and "Post w AuthURL body = Some resp"
    and "verifyServerCertificate resp = Some err"
  shows "validateAuth w = (Some err, [HttpPost AuthURL body])"
  using assms by (simp add: validateAuth_def readAuthKey_def)

text \<open>
  C7. The certificate check returns no error exactly when the response came over TLS
  and one of the peer certificates has the DNS name \<^verbatim>\<open>xzip.com\<close> or the common name
  \<^verbatim>\<open>xzip.com\<close>. When the check fails on the response to the client's request,
  \<^verbatim>\<open>validateAuth\<close> returns the check's error; and \<^verbatim>\<open>validateAuth\<close> returns no error
  only for a response on which the check passed. The transport itself excludes no
  response: \<open>Post\<close> is any function.
\<close>

theorem certificate_identity_check:
  "(verifyServerCertificate resp = None
      \<longleftrightarrow> (\<exists>certs. TLS resp = Some certs
           \<and> (\<exists>cert\<in>set certs. ''xzip.com'' \<in> set (DNSNames cert)
                 \<or> CommonName cert = ''xzip.com'')))
   \<and> (\<forall>data body err. ReadKeyFile w = Some data \<and> Marshal w (TrimSpace data) = Some body
         \<and> Post w AuthURL body = Some resp \<and> verifyServerCertificate resp = Some err
         \<longrightarrow> validateAuth w = (Some err, [HttpPost AuthURL body]))
   \<and> (fst (validateAuth w) = None
         \<longrightarrow> (\<exists>body resp'. Post w AuthURL body = Some resp'
               \<and> verifyServerCertificate resp' = None))"
proof (intro conjI allI impI)
  show "verifyServerCertificate resp = None
      \<longleftrightarrow> (\<exists>certs. TLS resp = Some certs
           \<and> (\<exists>cert\<in>set certs. ''xzip.com'' \<in> set (DNSNames cert)
                 \<or> CommonName cert = ''xzip.com''))"
    by (rule verifyServerCertificate_None_iff)
next
  fix data body err
  assume "ReadKeyFile w = Some data \<and> Marshal w (TrimSpace data) = Some body
    \<and> Post w AuthURL body = Some resp \<and> verifyServerCertificate resp = Some err"
  then show "validateAuth w = (Some err, [HttpPost AuthURL body])"
    using validateAuth_cert_error [of w data body resp err] by simp
next
  assume "fst (validateAuth w) = None"
  then show "\<exists>body resp'. Post w AuthURL body = Some resp' \<and> verifyServerCertificate resp' = None"
    unfolding validateAuth_ok_iff by blast
qed

theorem certificate_identity_check_witness:
  "verifyServerCertificate pinnedResponse = None
   \<and> validateAuth (sampleWorld (Some ''abc'') Exists foreignResponse 1)
       = (Some CertDomainMismatch, [HttpPost AuthURL ''key=abc''])
   \<and> validateAuth (sampleWorld (Some ''abc'') Exists plainResponse 1)
       = (Some NotHTTPS, [HttpPost AuthURL ''key=abc''])"
  using certificate_identity_check [of pinnedResponse "sampleWorld (Some ''abc'') Exists pinnedResponse 1"]
    certificate_identity_check [of foreignResponse "sampleWorld (Some ''abc'') Exists foreignResponse 1"]
    certificate_identity_check [of plainResponse "sampleWorld (Some ''abc'') Exists plainResponse 1"]
  by (simp add: pinnedResponse_def foreignResponse_def plainResponse_def sampleWorld_def
      verifyServerCertificate_def TrimSpace_def asciiSpace_def space2_def space3_def)

lemma initKeyFile_events:
  "filter isArchiveWork (snd (initKeyFile w)) = []"
  "filter isHttpPost (snd (initKeyFile w)) = []"
  by (simp_all add: initKeyFile_def Let_def)

lemma validateAuth_events:
  "filter isArchiveWork (snd (validateAuth w)) = []"
  "length (filter isHttpPost (snd (validateAuth w))) \<le> 1"
  by (simp_all add: validateAuth_def split: option.splits sum.splits)

lemma extractLoop_no_post:
  "filter isHttpPost (snd (extractLoop fs target password entries)) = []"
  by (induction entries) (auto simp: Let_def split: option.splits prod.splits)

lemma extractLoopPlain_no_post:
  "filter isHttpPost (snd (extractLoopPlain fs target entries)) = []"
  by (induction entries) (auto simp: Let_def split: option.splits prod.splits)

lemma extractFromZip_no_post:
  "filter isHttpPost (snd (extractFromZip fs source target password)) = []"
proof (cases "OpenReader fs source")
  case None
  then show ?thesis by (simp add: extractFromZip_def)
next
  case (Some entries)
  obtain err evs where loop: "extractLoop fs target password entries = (err, evs)"
    by (cases "extractLoop fs target password entries")
  then have "filter isHttpPost evs = []"
    using extractLoop_no_post [of fs target password entries] by simp
  then show ?thesis
    using Some loop by (simp add: extractFromZip_def)
qed

lemma runExtract_no_post:
  "filter isHttpPost (runExtract w source target password) = []"
proof -
  obtain err evs where run: "extractFromZip (Files w) source target password = (err, evs)"
    by (cases "extractFromZip (Files w) source target password")
  then have "filter isHttpPost evs = []"
    using extractFromZip_no_post [of "Files w" source target password] by simp
  then show ?thesis
    using run by (cases err) (simp_all add: runExtract_def)
qed

lemma extractFromZipPlain_no_post:
  "filter isHttpPost (snd (extractFromZipPlain fs source target)) = []"
proof (cases "OpenReader fs source")
  case None
  then show ?thesis by (simp add: extractFromZipPlain_def)
next
  case (Some entries)
  obtain err evs where loop: "extractLoopPlain fs target entries = (err, evs)"
    by (cases "extractLoopPlain fs target entries")
  then have "filter isHttpPost evs = []"
    using extractLoopPlain_no_post [of fs target entries] by simp
  then show ?thesis
    using Some loop by (simp add: extractFromZipPlain_def)
qed

lemma runExtractPlain_no_post:
  "filter isHttpPost (runExtractPlain w source target) = []"
proof -
  obtain err evs where run: "extractFromZipPlain (Files w) source target = (err, evs)"
    by (cases "extractFromZipPlain (Files w) source target")
  then have "filter isHttpPost evs = []"
    using extractFromZipPlain_no_post [of "Files w" source target] by simp
  then show ?thesis
    using run by (cases err) (simp_all add: runExtractPlain_def)
qed

lemma runCompress_no_post:
  "filter isHttpPost (runCompress w source target password) = []"
  by (simp add: runCompress_def split: option.splits)

lemma getPassword_no_post:
  "filter isHttpPost (snd (getPassword w)) = []"
  by (simp add: getPassword_def split: option.splits)

lemma runCommand_no_post:
  "filter isHttpPost (runCommand w) = []"
  using getPassword_no_post [of w]
  by (auto simp: runCommand_def runCompress_no_post runExtract_no_post
      split: prod.splits sum.splits)

lemma runCommandPlain_no_post:
  "filter isHttpPost (runCommandPlain w) = []"
  by (simp add: runCommandPlain_def runCompress_no_post runExtractPlain_no_post)

lemma main_unfold:
  "main w = Print Title # Print Rule # snd (initKeyFile w) @
     (case fst (initKeyFile w) of
        Some err \<Rightarrow> [Print (InitFailed err)]
      | None \<Rightarrow> snd (validateAuth w) @
          (case fst (validateAuth w) of
             Some err \<Rightarrow> [Print (Failed err)]
           | None \<Rightarrow> runCommand w))"
  by (cases "initKeyFile w"; cases "validateAuth w"; cases "fst (initKeyFile w)";
      cases "fst (validateAuth w)") (simp_all add: main_def)

lemma mainPlain_unfold:
  "mainPlain w = Print TitlePlain # Print Rule # snd (initKeyFile w) @
     (case fst (initKeyFile w) of
        Some err \<Rightarrow> [Print (InitFailed err)]
      | None \<Rightarrow> snd (validateAuth w) @
          (case fst (validateAuth w) of
             Some err \<Rightarrow> [Print (Failed err)]
           | None \<Rightarrow> runCommandPlain w))"
  by (cases "initKeyFile w"; cases "validateAuth w"; cases "fst (initKeyFile w)";
      cases "fst (validateAuth w)") (simp_all add: mainPlain_def)

lemma main_gate_closed:
  assumes "fst (initKeyFile w) \<noteq> None \<or> fst (validateAuth w) \<noteq> None"
  shows "filter isArchiveWork (main w) = []" and "filter isArchiveWork (mainPlain w) = []"
  using assms
  by (auto simp: main_unfold mainPlain_unfold initKeyFile_events validateAuth_events
      split: option.splits)

lemma main_one_post:
  shows "length (filter isHttpPost (main w)) \<le> 1"
    and "length (filter isHttpPost (mainPlain w)) \<le> 1"
  using validateAuth_events(2) [of w]
  by (auto simp: main_unfold mainPlain_unfold initKeyFile_events runCommand_no_post
      runCommandPlain_no_post split: option.splits)

lemma main_reports_failure:
  assumes "fst (initKeyFile w) = None" and "fst (validateAuth w) = Some err"
  shows "main w = Print Title # Print Rule # snd (initKeyFile w) @ snd (validateAuth w)
      @ [Print (Failed err)]"
    and "mainPlain w = Print TitlePlain # Print Rule # snd (initKeyFile w)
      @ snd (validateAuth w) @ [Print (Failed err)]"
  using assms by (simp_all add: main_unfold mainPlain_unfold)

lemma initKeyFile_missing:
  assumes "KeyFileStat w = NotExist"
  shows "fst (initKeyFile w) \<noteq> None"
  using assms by (simp add: initKeyFile_def Let_def)

lemma main_missing_created:
  assumes "KeyFileStat w = NotExist" and "MkdirAllOk w" and "CreateOk w"
  shows "main w = [Print Title, Print Rule, MkdirAll (filepath_Dir (getKeyFilePath w)) 448,
     Create (getKeyFilePath w), Print (KeyFileCreated (getKeyFilePath w)),
     Print WriteKeyIntoFile, Print (InitFailed KeyFileEmpty)]"
  using assms by (simp add: main_def initKeyFile_def Let_def)

lemma main_missing_no_post:
  assumes "KeyFileStat w = NotExist"
  shows "filter isHttpPost (main w) = []"
  using assms by (auto simp: main_unfold initKeyFile_def Let_def)

lemma initKeyFile_present:
  assumes "KeyFileStat w \<noteq> NotExist" and "MkdirAllOk w"
  shows "initKeyFile w = (None, [MkdirAll (filepath_Dir (getKeyFilePath w)) 448])"
  using assms by (simp add: initKeyFile_def Let_def)


lemma validateAuth_failures:
  assumes "ReadKeyFile w = Some data" and "Marshal w (TrimSpace data) = Some body"
  shows "Post w AuthURL body = None \<Longrightarrow> fst (validateAuth w) = Some NetworkFailed"
    and "Post w AuthURL body = Some resp \<Longrightarrow> verifyServerCertificate resp = None
      \<Longrightarrow> Body resp = Some raw \<Longrightarrow> Unmarshal w raw = None
      \<Longrightarrow> fst (validateAuth w) = Some ParseResponseFailed"
    and "Post w AuthURL body = Some resp \<Longrightarrow> verifyServerCertificate resp = None
      \<Longrightarrow> Body resp = Some raw \<Longrightarrow> Unmarshal w raw = Some (- 1)
      \<Longrightarrow> fst (validateAuth w) = Some AuthRejected"
    and "Post w AuthURL body = Some resp \<Longrightarrow> verifyServerCertificate resp = None
      \<Longrightarrow> Body resp = Some raw \<Longrightarrow> Unmarshal w raw = Some status
      \<Longrightarrow> status \<noteq> - 1 \<Longrightarrow> status \<noteq> 1
      \<Longrightarrow> fst (validateAuth w) = Some (StatusAbnormal status)"
  using assms by (simp_all add: validateAuth_def readAuthKey_def)

text \<open>
  C8. \<^verbatim>\<open>validateAuth\<close> returns no error exactly when the key file was read, the request
  was serialised and answered, the certificate check passed on the answer, the body was
  read and parsed, and the status is 1. When \<^verbatim>\<open>initKeyFile\<close> or \<^verbatim>\<open>validateAuth\<close>
  returns an error, the run of either client contains no archive work; when
  \<^verbatim>\<open>validateAuth\<close> fails, the run is the two title lines, the events of
  \<^verbatim>\<open>initKeyFile\<close> and of \<^verbatim>\<open>validateAuth\<close>, and the line that prints the error; and
  a run posts at most one authorization request.
\<close>

theorem authorization_gates_archive:
  "(fst (validateAuth w) = None
      \<longleftrightarrow> (\<exists>data body resp raw. ReadKeyFile w = Some data
            \<and> Marshal w (TrimSpace data) = Some body
            \<and> Post w AuthURL body = Some resp
            \<and> verifyServerCertificate resp = None
            \<and> Body resp = Some raw
            \<and> Unmarshal w raw = Some 1))
   \<and> (fst (initKeyFile w) \<noteq> None \<or> fst (validateAuth w) \<noteq> None
        \<longrightarrow> filter isArchiveWork (main w) = [] \<and> filter isArchiveWork (mainPlain w) = [])
   \<and> (\<forall>err. fst (initKeyFile w) = None \<and> fst (validateAuth w) = Some err
        \<longrightarrow> main w = Print Title # Print Rule # snd (initKeyFile w) @ snd (validateAuth w)
              @ [Print (Failed err)]
          \<and> mainPlain w = Print TitlePlain # Print Rule # snd (initKeyFile w)
              @ snd (validateAuth w) @ [Print (Failed err)])
   \<and> length (filter isHttpPost (main w)) \<le> 1
   \<and> length (filter isHttpPost (mainPlain w)) \<le> 1"
proof (intro conjI allI impI)
  show "fst (validateAuth w) = None
      \<longleftrightarrow> (\<exists>data body resp raw. ReadKeyFile w = Some data
            \<and> Marshal w (TrimSpace data) = Some body
            \<and> Post w AuthURL body = Some resp
            \<and> verifyServerCertificate resp = None
            \<and> Body resp = Some raw
            \<and> Unmarshal w raw = Some 1)"
    by (rule validateAuth_ok_iff)
next
  assume closed: "fst (initKeyFile w) \<noteq> None \<or> fst (validateAuth w) \<noteq> None"
  show "filter isArchiveWork (main w) = []"
    using closed by (rule main_gate_closed(1))
  show "filter isArchiveWork (mainPlain w) = []"
    using closed by (rule main_gate_closed(2))
next
  fix err
  assume failed: "fst (initKeyFile w) = None \<and> fst (validateAuth w) = Some err"
  show "main w = Print Title # Print Rule # snd (initKeyFile w) @ snd (validateAuth w)
      @ [Print (Failed err)]"
    using failed main_reports_failure(1) [of w err] by simp
  show "mainPlain w = Print TitlePlain # Print Rule # snd (initKeyFile w) @ snd (validateAuth w)
      @ [Print (Failed err)]"
    using failed main_reports_failure(2) [of w err] by simp
next
  show "length (filter isHttpPost (main w)) \<le> 1"
    by (rule main_one_post(1))
  show "length (filter isHttpPost (mainPlain w)) \<le> 1"
    by (rule main_one_post(2))
qed

theorem authorization_gates_archive_witness:
  "main (sampleWorld (Some ''abc'') Exists pinnedResponse (- 1))
     = [Print Title, Print Rule, MkdirAll ''/home/u/.xzip'' 448,
        HttpPost AuthURL ''key=abc'', Print (Failed AuthRejected)]
   \<and> filter isArchiveWork (main (sampleWorld (Some ''abc'') Exists pinnedResponse (- 1))) = []
   \<and> main (sampleWorld (Some ''abc'') Exists foreignResponse 1)
     = [Print Title, Print Rule, MkdirAll ''/home/u/.xzip'' 448,
        HttpPost AuthURL ''key=abc'', Print (Failed CertDomainMismatch)]
   \<and> filter isArchiveWork (main (sampleWorld (Some ''abc'') Exists foreignResponse 1)) = []"
  using authorization_gates_archive [of "sampleWorld (Some ''abc'') Exists pinnedResponse (- 1)"]
    authorization_gates_archive [of "sampleWorld (Some ''abc'') Exists foreignResponse 1"]
  by (simp add: sampleWorld_def pinnedResponse_def foreignResponse_def validateAuth_def
      readAuthKey_def initKeyFile_def verifyServerCertificate_def TrimSpace_def asciiSpace_def space2_def space3_def Let_def
      getKeyFilePath_def KeyFile_def filepath_Join_def filepath_Dir_def filepath_Clean_def
      isRooted_def)

section \<open>The key file\<close>

text \<open>
  C10 as stated fails for a key file that exists and is empty: \<^verbatim>\<open>initKeyFile\<close> tests
  only whether the file exists. The empty key is posted like any other; if the endpoint
  answers 1 the archive command runs, and if it answers -1 the run ends with the
  authorization error, not with the instruction to fill the key file.
\<close>

theorem empty_key_file_counterexample:
  "main (sampleWorld (Some []) Exists pinnedResponse 1)
     = [Print Title, Print Rule, MkdirAll ''/home/u/.xzip'' 448,
        HttpPost AuthURL ''key='', Print AuthOK, Print AskNeedPassword,
        CompressToZip ''src'' ''out.zip'' [], Print (CompressDone ''out.zip'')]
   \<and> filter isArchiveWork (main (sampleWorld (Some []) Exists pinnedResponse 1))
     = [CompressToZip ''src'' ''out.zip'' []]
   \<and> main (sampleWorld (Some []) Exists pinnedResponse (- 1))
     = [Print Title, Print Rule, MkdirAll ''/home/u/.xzip'' 448,
        HttpPost AuthURL ''key='', Print (Failed AuthRejected)]
   \<and> Print WriteKeyIntoFile \<notin> set (main (sampleWorld (Some []) Exists pinnedResponse (- 1)))"
  by (simp add: main_def sampleWorld_def pinnedResponse_def validateAuth_def
      readAuthKey_def initKeyFile_def verifyServerCertificate_def TrimSpace_def asciiSpace_def space2_def space3_def Let_def
      getKeyFilePath_def KeyFile_def filepath_Join_def filepath_Dir_def filepath_Clean_def
      isRooted_def runCommand_def runCompress_def isYes_def)

lemma validateAuth_of_key:
  assumes "ReadKeyFile w = Some data"
  shows "validateAuth w =
    (case Marshal w (TrimSpace data) of
       None \<Rightarrow> (Some MarshalFailed, [])
     | Some body \<Rightarrow>
    (case Post w AuthURL body of
       None \<Rightarrow> (Some NetworkFailed, [HttpPost AuthURL body])
     | Some resp \<Rightarrow>
    (case verifyServerCertificate resp of
       Some err \<Rightarrow> (Some err, [HttpPost AuthURL body])
     | None \<Rightarrow>
    (case Body resp of
       None \<Rightarrow> (Some ReadResponseFailed, [HttpPost AuthURL body])
     | Some raw \<Rightarrow>
    (case Unmarshal w raw of
       None \<Rightarrow> (Some ParseResponseFailed, [HttpPost AuthURL body])
     | Some status \<Rightarrow>
         if status = - 1 then (Some AuthRejected, [HttpPost AuthURL body])
         else if status \<noteq> 1 then (Some (StatusAbnormal status), [HttpPost AuthURL body])
         else (None, [HttpPost AuthURL body, Print AuthOK]))))))"
  using assms by (simp add: validateAuth_def readAuthKey_def)

lemma main_empty_key:
  assumes "KeyFileStat w = Exists" and "MkdirAllOk w" and "ReadKeyFile w = Some data"
    and "TrimSpace data = []"
  shows "main w = Print Title # Print Rule
       # MkdirAll (filepath_Dir (getKeyFilePath w)) 448
       # (case Marshal w [] of
            None \<Rightarrow> [Print (Failed MarshalFailed)]
          | Some body \<Rightarrow>
         HttpPost AuthURL body #
         (case Post w AuthURL body of
            None \<Rightarrow> [Print (Failed NetworkFailed)]
          | Some resp \<Rightarrow>
         (case verifyServerCertificate resp of
            Some err \<Rightarrow> [Print (Failed err)]
          | None \<Rightarrow>
         (case Body resp of
            None \<Rightarrow> [Print (Failed ReadResponseFailed)]
          | Some raw \<Rightarrow>
         (case Unmarshal w raw of
            None \<Rightarrow> [Print (Failed ParseResponseFailed)]
          | Some status \<Rightarrow>
              if status = - 1 then [Print (Failed AuthRejected)]
              else if status \<noteq> 1 then [Print (Failed (StatusAbnormal status))]
              else Print AuthOK # runCommand w)))))"
    and "mainPlain w = Print TitlePlain # Print Rule
       # MkdirAll (filepath_Dir (getKeyFilePath w)) 448
       # (case Marshal w [] of
            None \<Rightarrow> [Print (Failed MarshalFailed)]
          | Some body \<Rightarrow>
         HttpPost AuthURL body #
         (case Post w AuthURL body of
            None \<Rightarrow> [Print (Failed NetworkFailed)]
          | Some resp \<Rightarrow>
         (case verifyServerCertificate resp of
            Some err \<Rightarrow> [Print (Failed err)]
          | None \<Rightarrow>
         (case Body resp of
            None \<Rightarrow> [Print (Failed ReadResponseFailed)]
          | Some raw \<Rightarrow>
         (case Unmarshal w raw of
            None \<Rightarrow> [Print (Failed ParseResponseFailed)]
          | Some status \<Rightarrow>
              if status = - 1 then [Print (Failed AuthRejected)]
              else if status \<noteq> 1 then [Print (Failed (StatusAbnormal status))]
              else Print AuthOK # runCommandPlain w)))))"
proof -
  have init: "initKeyFile w = (None, [MkdirAll (filepath_Dir (getKeyFilePath w)) 448])"
    using assms(1,2) initKeyFile_present [of w] by simp
  have auth: "validateAuth w =
    (case Marshal w [] of
       None \<Rightarrow> (Some MarshalFailed, [])
     | Some body \<Rightarrow>
    (case Post w AuthURL body of
       None \<Rightarrow> (Some NetworkFailed, [HttpPost AuthURL body])
     | Some resp \<Rightarrow>
    (case verifyServerCertificate resp of
       Some err \<Rightarrow> (Some err, [HttpPost AuthURL body])
     | None \<Rightarrow>
    (case Body resp of
       None \<Rightarrow> (Some ReadResponseFailed, [HttpPost AuthURL body])
     | Some raw \<Rightarrow>
    (case Unmarshal w raw of
       None \<Rightarrow> (Some ParseResponseFailed, [HttpPost AuthURL body])
     | Some status \<Rightarrow>
         if status = - 1 then (Some AuthRejected, [HttpPost AuthURL body])
         else if status \<noteq> 1 then (Some (StatusAbnormal status), [HttpPost AuthURL body])
         else (None, [HttpPost AuthURL body, Print AuthOK]))))))"
    using assms(4) validateAuth_of_key [OF assms(3)] by simp
  show "main w = Print Title # Print Rule
       # MkdirAll (filepath_Dir (getKeyFilePath w)) 448
       # (case Marshal w [] of
            None \<Rightarrow> [Print (Failed MarshalFailed)]
          | Some body \<Rightarrow>
         HttpPost AuthURL body #
         (case Post w AuthURL body of
            None \<Rightarrow> [Print (Failed NetworkFailed)]
          | Some resp \<Rightarrow>
         (case verifyServerCertificate resp of
            Some err \<Rightarrow> [Print (Failed err)]
          | None \<Rightarrow>
         (case Body resp of
            None \<Rightarrow> [Print (Failed ReadResponseFailed)]
          | Some raw \<Rightarrow>
         (case Unmarshal w raw of
            None \<Rightarrow> [Print (Failed ParseResponseFailed)]
          | Some status \<Rightarrow>
              if status = - 1 then [Print (Failed AuthRejected)]
              else if status \<noteq> 1 then [Print (Failed (StatusAbnormal status))]
              else Print AuthOK # runCommand w)))))"
    by (simp add: main_def init auth split: option.splits)
  show "mainPlain w = Print TitlePlain # Print Rule
       # MkdirAll (filepath_Dir (getKeyFilePath w)) 448
       # (case Marshal w [] of
            None \<Rightarrow> [Print (Failed MarshalFailed)]
          | Some body \<Rightarrow>
         HttpPost AuthURL body #
         (case Post w AuthURL body of
            None \<Rightarrow> [Print (Failed NetworkFailed)]
          | Some resp \<Rightarrow>
         (case verifyServerCertificate resp of
            Some err \<Rightarrow> [Print (Failed err)]
          | None \<Rightarrow>
         (case Body resp of
            None \<Rightarrow> [Print (Failed ReadResponseFailed)]
          | Some raw \<Rightarrow>
         (case Unmarshal w raw of
            None \<Rightarrow> [Print (Failed ParseResponseFailed)]
          | Some status \<Rightarrow>
              if status = - 1 then [Print (Failed AuthRejected)]
              else if status \<noteq> 1 then [Print (Failed (StatusAbnormal status))]
              else Print AuthOK # runCommandPlain w)))))"
    by (simp add: mainPlain_def init auth split: option.splits)
qed

lemma mainPlain_missing:
  assumes "KeyFileStat w = NotExist"
  shows "filter isHttpPost (mainPlain w) = []"
    and "MkdirAllOk w \<Longrightarrow> CreateOk w \<Longrightarrow>
      mainPlain w = [Print TitlePlain, Print Rule,
        MkdirAll (filepath_Dir (getKeyFilePath w)) 448,
        Create (getKeyFilePath w), Print (KeyFileCreated (getKeyFilePath w)),
        Print WriteKeyIntoFile, Print (InitFailed KeyFileEmpty)]"
  using assms by (auto simp: mainPlain_unfold initKeyFile_def Let_def)

text \<open>
  C10, amended. If the key file does not exist, \<^verbatim>\<open>initKeyFile\<close> returns an error and
  the run of either client does no archive work and posts no request; if the key
  directory and the empty key file can be created, the run prints the instruction to
  write the key into the file and ends with the error "key file is empty". If the key
  file exists and holds nothing but white space, \<^verbatim>\<open>initKeyFile\<close> returns no error, the
  key read is the empty string, and the client sends it: the run is the title lines,
  the \<^verbatim>\<open>MkdirAll\<close> of the key directory, the POST of the serialised empty key to the
  authorization URL, and then what the answer decides, the line of the authorization
  error or the command. Up to the command, such a run prints neither the instruction to
  fill the key file nor an initialisation failure.
\<close>

theorem key_file_gate:
  "(KeyFileStat w = NotExist
      \<longrightarrow> fst (initKeyFile w) \<noteq> None
          \<and> filter isArchiveWork (main w) = [] \<and> filter isHttpPost (main w) = []
          \<and> filter isArchiveWork (mainPlain w) = [] \<and> filter isHttpPost (mainPlain w) = [])
   \<and> (KeyFileStat w = NotExist \<and> MkdirAllOk w \<and> CreateOk w
      \<longrightarrow> main w = [Print Title, Print Rule, MkdirAll (filepath_Dir (getKeyFilePath w)) 448,
            Create (getKeyFilePath w), Print (KeyFileCreated (getKeyFilePath w)),
            Print WriteKeyIntoFile, Print (InitFailed KeyFileEmpty)]
          \<and> mainPlain w = [Print TitlePlain, Print Rule,
            MkdirAll (filepath_Dir (getKeyFilePath w)) 448,
            Create (getKeyFilePath w), Print (KeyFileCreated (getKeyFilePath w)),
            Print WriteKeyIntoFile, Print (InitFailed KeyFileEmpty)])
   \<and> (\<forall>data. KeyFileStat w = Exists \<and> MkdirAllOk w \<and> ReadKeyFile w = Some data
        \<and> TrimSpace data = []
      \<longrightarrow> fst (initKeyFile w) = None \<and> readAuthKey w = Inr []
          \<and> main w = Print Title # Print Rule
       # MkdirAll (filepath_Dir (getKeyFilePath w)) 448
       # (case Marshal w [] of
            None \<Rightarrow> [Print (Failed MarshalFailed)]
          | Some body \<Rightarrow>
         HttpPost AuthURL body #
         (case Post w AuthURL body of
            None \<Rightarrow> [Print (Failed NetworkFailed)]
          | Some resp \<Rightarrow>
         (case verifyServerCertificate resp of
            Some err \<Rightarrow> [Print (Failed err)]
          | None \<Rightarrow>
         (case Body resp of
            None \<Rightarrow> [Print (Failed ReadResponseFailed)]
          | Some raw \<Rightarrow>
         (case Unmarshal w raw of
            None \<Rightarrow> [Print (Failed ParseResponseFailed)]
          | Some status \<Rightarrow>
              if status = - 1 then [Print (Failed AuthRejected)]
              else if status \<noteq> 1 then [Print (Failed (StatusAbnormal status))]
              else Print AuthOK # runCommand w)))))
          \<and> mainPlain w = Print TitlePlain # Print Rule
       # MkdirAll (filepath_Dir (getKeyFilePath w)) 448
       # (case Marshal w [] of
            None \<Rightarrow> [Print (Failed MarshalFailed)]
          | Some body \<Rightarrow>
         HttpPost AuthURL body #
         (case Post w AuthURL body of
            None \<Rightarrow> [Print (Failed NetworkFailed)]
          | Some resp \<Rightarrow>
         (case verifyServerCertificate resp of
            Some err \<Rightarrow> [Print (Failed err)]
          | None \<Rightarrow>
         (case Body resp of
            None \<Rightarrow> [Print (Failed ReadResponseFailed)]
          | Some raw \<Rightarrow>
         (case Unmarshal w raw of
            None \<Rightarrow> [Print (Failed ParseResponseFailed)]
          | Some status \<Rightarrow>
              if status = - 1 then [Print (Failed AuthRejected)]
              else if status \<noteq> 1 then [Print (Failed (StatusAbnormal status))]
              else Print AuthOK # runCommandPlain w))))))
   \<and> (\<forall>data body. KeyFileStat w = Exists \<and> MkdirAllOk w \<and> ReadKeyFile w = Some data
        \<and> TrimSpace data = [] \<and> Marshal w [] = Some body
      \<longrightarrow> HttpPost AuthURL body \<in> set (main w) \<and> HttpPost AuthURL body \<in> set (mainPlain w))"
proof (intro conjI allI impI)
  assume missing: "KeyFileStat w = NotExist"
  show init: "fst (initKeyFile w) \<noteq> None"
    using missing by (rule initKeyFile_missing)
  show "filter isArchiveWork (main w) = []"
    using init main_gate_closed(1) [of w] by simp
  show "filter isArchiveWork (mainPlain w) = []"
    using init main_gate_closed(2) [of w] by simp
  show "filter isHttpPost (main w) = []"
    using missing by (rule main_missing_no_post)
  show "filter isHttpPost (mainPlain w) = []"
    using missing by (rule mainPlain_missing(1))
next
  assume created: "KeyFileStat w = NotExist \<and> MkdirAllOk w \<and> CreateOk w"
  show "main w = [Print Title, Print Rule, MkdirAll (filepath_Dir (getKeyFilePath w)) 448,
            Create (getKeyFilePath w), Print (KeyFileCreated (getKeyFilePath w)),
            Print WriteKeyIntoFile, Print (InitFailed KeyFileEmpty)]"
    using created main_missing_created [of w] by simp
  show "mainPlain w = [Print TitlePlain, Print Rule,
            MkdirAll (filepath_Dir (getKeyFilePath w)) 448,
            Create (getKeyFilePath w), Print (KeyFileCreated (getKeyFilePath w)),
            Print WriteKeyIntoFile, Print (InitFailed KeyFileEmpty)]"
    using created mainPlain_missing(2) [of w] by simp
next
  fix data
  assume present: "KeyFileStat w = Exists \<and> MkdirAllOk w \<and> ReadKeyFile w = Some data
        \<and> TrimSpace data = []"
  show "fst (initKeyFile w) = None"
    using present initKeyFile_present [of w] by simp
  show "readAuthKey w = Inr []"
    using present by (simp add: readAuthKey_def)
  show "main w = Print Title # Print Rule
       # MkdirAll (filepath_Dir (getKeyFilePath w)) 448
       # (case Marshal w [] of
            None \<Rightarrow> [Print (Failed MarshalFailed)]
          | Some body \<Rightarrow>
         HttpPost AuthURL body #
         (case Post w AuthURL body of
            None \<Rightarrow> [Print (Failed NetworkFailed)]
          | Some resp \<Rightarrow>
         (case verifyServerCertificate resp of
            Some err \<Rightarrow> [Print (Failed err)]
          | None \<Rightarrow>
         (case Body resp of
            None \<Rightarrow> [Print (Failed ReadResponseFailed)]
          | Some raw \<Rightarrow>
         (case Unmarshal w raw of
            None \<Rightarrow> [Print (Failed ParseResponseFailed)]
          | Some status \<Rightarrow>
              if status = - 1 then [Print (Failed AuthRejected)]
              else if status \<noteq> 1 then [Print (Failed (StatusAbnormal status))]
              else Print AuthOK # runCommand w)))))"
    using present main_empty_key(1) [of w data] by simp
  show "mainPlain w = Print TitlePlain # Print Rule
       # MkdirAll (filepath_Dir (getKeyFilePath w)) 448
       # (case Marshal w [] of
            None \<Rightarrow> [Print (Failed MarshalFailed)]
          | Some body \<Rightarrow>
         HttpPost AuthURL body #
         (case Post w AuthURL body of
            None \<Rightarrow> [Print (Failed NetworkFailed)]
          | Some resp \<Rightarrow>
         (case verifyServerCertificate resp of
            Some err \<Rightarrow> [Print (Failed err)]
          | None \<Rightarrow>
         (case Body resp of
            None \<Rightarrow> [Print (Failed ReadResponseFailed)]
          | Some raw \<Rightarrow>
         (case Unmarshal w raw of
            None \<Rightarrow> [Print (Failed ParseResponseFailed)]
          | Some status \<Rightarrow>
              if status = - 1 then [Print (Failed AuthRejected)]
              else if status \<noteq> 1 then [Print (Failed (StatusAbnormal status))]
              else Print AuthOK # runCommandPlain w)))))"
    using present main_empty_key(2) [of w data] by simp
next
  fix data body
  assume posted: "KeyFileStat w = Exists \<and> MkdirAllOk w \<and> ReadKeyFile w = Some data
        \<and> TrimSpace data = [] \<and> Marshal w [] = Some body"
  show "HttpPost AuthURL body \<in> set (main w)"
    using posted main_empty_key(1) [of w data] by simp
  show "HttpPost AuthURL body \<in> set (mainPlain w)"
    using posted main_empty_key(2) [of w data] by simp
qed

theorem key_file_gate_witness:
  "main (sampleWorld None NotExist pinnedResponse 1)
     = [Print Title, Print Rule, MkdirAll ''/home/u/.xzip'' 448, Create ''/home/u/.xzip/key'',
        Print (KeyFileCreated ''/home/u/.xzip/key''), Print WriteKeyIntoFile,
        Print (InitFailed KeyFileEmpty)]
   \<and> filter isArchiveWork (main (sampleWorld None NotExist pinnedResponse 1)) = []
   \<and> TrimSpace [CHR 0x20, CHR 0xC2, CHR 0xA0, CHR 0x0A] = []
   \<and> main (sampleWorld (Some [CHR 0x20, CHR 0xC2, CHR 0xA0, CHR 0x0A]) Exists
        pinnedResponse (- 1))
     = [Print Title, Print Rule, MkdirAll ''/home/u/.xzip'' 448,
        HttpPost AuthURL ''key='', Print (Failed AuthRejected)]
   \<and> HttpPost AuthURL ''key='' \<in> set (mainPlain
        (sampleWorld (Some [CHR 0x20, CHR 0xC2, CHR 0xA0, CHR 0x0A]) Exists foreignResponse 1))"
  using key_file_gate [of "sampleWorld None NotExist pinnedResponse 1"]
    key_file_gate [of "sampleWorld (Some [CHR 0x20, CHR 0xC2, CHR 0xA0, CHR 0x0A]) Exists
        pinnedResponse (- 1)"]
    key_file_gate [of "sampleWorld (Some [CHR 0x20, CHR 0xC2, CHR 0xA0, CHR 0x0A]) Exists
        foreignResponse 1"]
  by (simp add: sampleWorld_def pinnedResponse_def verifyServerCertificate_def
      TrimSpace_def asciiSpace_def space2_def space3_def getKeyFilePath_def KeyFile_def
      filepath_Join_def filepath_Dir_def filepath_Clean_def isRooted_def)

end
